theory Spec2Isabelle
  imports Main
begin

section \<open>JavaScript values used by the service\<close>

text \<open>
  Strings are lists of characters read as code points below 256. A request field that
  is absent (\<open>undefined\<close>) is \<open>None\<close>. Instants are milliseconds since the epoch, as
  \<open>Date.getTime()\<close> and \<open>Date.now()\<close> give them; the \<open>iat\<close> of a token is in seconds.
\<close>

definition truthy :: "string option \<Rightarrow> bool" where
  "truthy v = (case v of None \<Rightarrow> False | Some s \<Rightarrow> s \<noteq> [])"

definition startsWith :: "string \<Rightarrow> string \<Rightarrow> bool" where
  "startsWith s p = (take (length p) s = p)"

text \<open>\<open>s.split(' ')\<close>: one piece more than there are spaces, empty pieces kept.\<close>

fun split_space :: "string \<Rightarrow> string list" where
  "split_space [] = [[]]"
| "split_space (c # cs) =
     (if c = CHR '' '' then [] # split_space cs
      else (case split_space cs of
              [] \<Rightarrow> [[c]]
            | w # ws \<Rightarrow> (c # w) # ws))"

text \<open>\<open>xs[i]\<close> on an array: \<open>undefined\<close> out of range.\<close>

definition at_index :: "'a list \<Rightarrow> nat \<Rightarrow> 'a option" where
  "at_index xs i = (if i < length xs then Some (xs ! i) else None)"

text \<open>
  \<open>parseInt(ms / 1000, 10)\<close> on an integral number of milliseconds: the quotient
  with its fraction cut off (towards zero).
\<close>

definition parseInt_div_1000 :: "int \<Rightarrow> int" where
  "parseInt_div_1000 ms = (if 0 \<le> ms then ms div 1000 else - ((- ms) div 1000))"

text \<open>
  The value of a field of a JSON body: a string, an integral number, a boolean or
  \<open>null\<close>. (Fractions, and arrays and objects nested in a body, are outside the model.)
  \<open>js_truthy\<close> is the test of \<open>!v\<close> and \<open>v || d\<close>, \<open>js_typeof\<close> is \<open>typeof v\<close>,
  \<open>js_String\<close> is \<open>String(v)\<close>.
\<close>

datatype json = JString string | JNumber int | JBool bool | JNull

type_synonym json_object = "(string \<times> json) list"

definition js_truthy :: "json option \<Rightarrow> bool" where
  "js_truthy v =
     (case v of
        None \<Rightarrow> False
      | Some (JString s) \<Rightarrow> s \<noteq> []
      | Some (JNumber n) \<Rightarrow> n \<noteq> 0
      | Some (JBool b) \<Rightarrow> b
      | Some JNull \<Rightarrow> False)"

definition js_typeof :: "json option \<Rightarrow> string" where
  "js_typeof v =
     (case v of
        None \<Rightarrow> ''undefined''
      | Some (JString s) \<Rightarrow> ''string''
      | Some (JNumber n) \<Rightarrow> ''number''
      | Some (JBool b) \<Rightarrow> ''boolean''
      | Some JNull \<Rightarrow> ''object'')"

fun decimal :: "nat \<Rightarrow> string" where
  "decimal n =
     (if n < 10 then [char_of (48 + n)]
      else decimal (n div 10) @ [char_of (48 + n mod 10)])"

declare decimal.simps [simp del]

definition js_String :: "json \<Rightarrow> string" where
  "js_String v =
     (case v of
        JString s \<Rightarrow> s
      | JNumber n \<Rightarrow> (if n < 0 then ''-'' @ decimal (nat (- n)) else decimal (nat n))
      | JBool b \<Rightarrow> (if b then ''true'' else ''false'')
      | JNull \<Rightarrow> ''null'')"

text \<open>\<open>a || b\<close>.\<close>

definition js_or :: "json option \<Rightarrow> json \<Rightarrow> json" where
  "js_or v d = (case v of None \<Rightarrow> d | Some x \<Rightarrow> if js_truthy (Some x) then x else d)"

definition or_else :: "string option \<Rightarrow> string \<Rightarrow> string" where
  "or_else v d = (case v of None \<Rightarrow> d | Some s \<Rightarrow> if s = [] then d else s)"

text \<open>A text between double quotes, as the libraries' messages have it.\<close>

definition quoted :: "string \<Rightarrow> string" where
  "quoted s = CHR 0x22 # s @ [CHR 0x22]"

text \<open>
  The errors that reach \<open>next(err)\<close>. An \<open>AppError\<close> carries its message and status
  code. A Sequelize validation error carries its items, each with its type and message.
  \<open>BodyParserError\<close> is the error \<open>express.json()\<close> ends a request with: it carries
  the status body-parser gives it and a message.
\<close>

datatype js_error =
    AppError string nat
  | TypeError string
  | ReferenceError string
  | Error string
  | SequelizeValidationError "(string \<times> string) list"
  | SequelizeUniqueConstraintError string
  | SequelizeDatabaseError string
  | BodyParserError nat string

text \<open>
  \<open>toLowerCase\<close> on code points below 256: the Latin capitals A to Z and those from
  192 to 222 except the multiplication sign (215) move up by 32.
\<close>

definition toLowerCase_char :: "char \<Rightarrow> char" where
  "toLowerCase_char c =
     (let n = (of_char c :: nat) in
      if (65 \<le> n \<and> n \<le> 90) \<or> (192 \<le> n \<and> n \<le> 214) \<or> (216 \<le> n \<and> n \<le> 222)
      then char_of (n + 32) else c)"

definition toLowerCase :: "string \<Rightarrow> string" where
  "toLowerCase s = map toLowerCase_char s"

text \<open>The characters the regular expression class \<open>\s\<close> matches, below 256.\<close>

definition is_space :: "char \<Rightarrow> bool" where
  "is_space c = (let n = (of_char c :: nat) in (9 \<le> n \<and> n \<le> 13) \<or> n = 32 \<or> n = 160)"

section \<open>The environment of a request\<close>

text \<open>
  What the handlers take from libraries and from the process: the clock, jsonwebtoken
  with the configured secret and lifetime (\<open>JWT_verify\<close> gives the payload's \<open>id\<close> and
  \<open>iat\<close>, or \<open>None\<close> where \<open>jwt.verify\<close> throws), bcrypt on strings, SHA-256, the
  random bytes and the uuid drawn for this request, the mail transport (\<open>sendMail\<close> gives
  \<open>None\<close> when it accepts the message and the error it rejects with otherwise),
  validator.js's \<open>isEmail\<close> and \<open>normalizeEmail\<close>, the messages express-validator
  finds for a named set of rules on the body, the route parameters and the query, the
  message of \<open>JSON.parse\<close> on a text that is not JSON, what the database makes of a
  text given for a boolean column (\<open>None\<close> where it refuses the text), and whether the
  Node.js release running the service has a global named \<open>crypto\<close> (the Web Crypto
  object of the later releases).
\<close>

record mail =
  mail_to :: string
  mail_subject :: string
  mail_text :: string

record env =
  now :: int
  JWT_sign :: "string \<Rightarrow> string"
  JWT_verify :: "string \<Rightarrow> (string \<times> int) option"
  bcrypt_hash :: "string \<Rightarrow> string"
  bcrypt_compare :: "string \<Rightarrow> string \<Rightarrow> bool"
  sha256_hex :: "string \<Rightarrow> string"
  randomBytes_hex :: string
  uuidv4 :: string
  sendMail :: "mail \<Rightarrow> js_error option"
  isEmail :: "string \<Rightarrow> bool"
  normalizeEmail :: "string \<Rightarrow> string"
  express_validator ::
    "string \<Rightarrow> json_object \<Rightarrow> (string \<times> string) list \<Rightarrow> (string \<times> string) list \<Rightarrow> string list"
  JSON_parse_message :: "string \<Rightarrow> string"
  boolean_input :: "string \<Rightarrow> bool option"
  node_has_global_crypto :: bool

section \<open>The User model (models/user.model.js)\<close>

text \<open>
  An attribute that may be \<open>null\<close>, and that an instance may hold as \<open>undefined\<close>
  (left out by the scope of the query, or assigned \<open>undefined\<close>).
\<close>

datatype 'a attribute = Undefined | Null | Value 'a

text \<open>
  A row of the table, and an instance loaded from one. \<open>password\<close> is \<open>None\<close> on an
  instance that does not hold it; the dates that may be null are \<open>None\<close> when null.
\<close>

record user =
  user_id :: string
  firstName :: string
  lastName :: string
  email :: string
  password :: "string option"
  role :: string
  isActive :: bool
  lastLogin :: "int option"
  passwordChangedAt :: "int option"
  passwordResetToken :: "string attribute"
  passwordResetExpires :: "int attribute"
  deletedAt :: "int option"

type_synonym users_table = "user list"

text \<open>
  The default scope leaves \<open>password\<close>, \<open>passwordResetToken\<close> and
  \<open>passwordResetExpires\<close> out of what a query returns; the model is paranoid, so a
  query does not see a row whose \<open>deletedAt\<close> is set.
\<close>

definition defaultScope :: "user \<Rightarrow> user" where
  "defaultScope u =
     u\<lparr>password := None, passwordResetToken := Undefined, passwordResetExpires := Undefined\<rparr>"

definition findOne :: "(user \<Rightarrow> bool) \<Rightarrow> users_table \<Rightarrow> user option" where
  "findOne wh db = find (\<lambda>u. deletedAt u = None \<and> wh u) db"

definition findByPk :: "users_table \<Rightarrow> string \<Rightarrow> user option" where
  "findByPk db k = map_option defaultScope (findOne (\<lambda>u. user_id u = k) db)"

text \<open>
  \<open>where: { email: v }\<close> on the text column, for the value a handler took from the
  body: Sequelize refuses \<open>undefined\<close>, \<open>null\<close> selects the rows whose column is null
  (there are none), and the database refuses to compare the column with a number or a
  boolean.
\<close>

definition where_equals :: "string \<Rightarrow> json option \<Rightarrow> js_error + (string \<Rightarrow> bool)" where
  "where_equals field v =
     (case v of
        None \<Rightarrow>
          Inl (Error (''WHERE parameter '' @ quoted field @ '' has invalid ''
                      @ quoted ''undefined'' @ '' value''))
      | Some (JString s) \<Rightarrow> Inr (\<lambda>column. column = s)
      | Some JNull \<Rightarrow> Inr (\<lambda>column. False)
      | Some (JNumber n) \<Rightarrow>
          Inl (SequelizeDatabaseError ''operator does not exist: character varying = integer'')
      | Some (JBool b) \<Rightarrow>
          Inl (SequelizeDatabaseError ''operator does not exist: character varying = boolean''))"

definition changedPasswordAfter :: "user \<Rightarrow> int \<Rightarrow> bool" where
  "changedPasswordAfter u JWTTimestamp =
     (case passwordChangedAt u of
        Some changed \<Rightarrow> JWTTimestamp < parseInt_div_1000 changed
      | None \<Rightarrow> False)"

text \<open>
  Validation, as Sequelize runs it on the attributes it is given. First the schema:
  an attribute declared \<open>allowNull: false\<close> whose value is \<open>null\<close> or \<open>undefined\<close>
  is a \<open>notNull Violation\<close>. Then the validators the model declares, in their order, on
  \<open>String(value)\<close> of a value that is not null; \<open>notEmpty\<close> refuses a string of white
  space only. The violations of the schema come first in the list of errors.
\<close>

definition notNull :: "string \<Rightarrow> json option \<Rightarrow> (string \<times> string) list" where
  "notNull field v =
     (if v = None \<or> v = Some JNull
      then [(''notNull Violation'', ''User.'' @ field @ '' cannot be null'')] else [])"

definition notEmpty :: "string \<Rightarrow> bool" where
  "notEmpty s = (\<not> list_all is_space s)"

definition failed :: "bool \<Rightarrow> string \<Rightarrow> (string \<times> string) list" where
  "failed ok msg = (if ok then [] else [(''Validation error'', msg)])"

definition validate_firstName :: "json option \<Rightarrow> (string \<times> string) list" where
  "validate_firstName v =
     (if v = None \<or> v = Some JNull then []
      else (let s = js_String (the v)
            in failed (notEmpty s) ''First name is required''
               @ failed (2 \<le> length s \<and> length s \<le> 50)
                   ''First name must be between 2 and 50 characters''))"

definition validate_lastName :: "json option \<Rightarrow> (string \<times> string) list" where
  "validate_lastName v =
     (if v = None \<or> v = Some JNull then []
      else (let s = js_String (the v)
            in failed (notEmpty s) ''Last name is required''
               @ failed (2 \<le> length s \<and> length s \<le> 50)
                   ''Last name must be between 2 and 50 characters''))"

definition validate_email :: "env \<Rightarrow> json option \<Rightarrow> (string \<times> string) list" where
  "validate_email e v =
     (if v = None \<or> v = Some JNull then []
      else (let s = js_String (the v)
            in failed (isEmail e s) ''Please provide a valid email address''
               @ failed (notEmpty s) ''Email is required''
               @ failed (s = toLowerCase s) ''Validation isLowercase on email failed''))"

definition validate_password :: "json option \<Rightarrow> (string \<times> string) list" where
  "validate_password v =
     (if v = None \<or> v = Some JNull then []
      else (let s = js_String (the v)
            in failed (notEmpty s) ''Password is required''
               @ failed (8 \<le> length s \<and> length s \<le> 128)
                   ''Password must be between 8 and 128 characters''))"

text \<open>
  The values a handler assigns to the attributes \<open>firstName\<close>, \<open>lastName\<close>, \<open>email\<close>
  and \<open>password\<close> come from the body, so they are JSON values; \<open>assigned\<close> lists them
  by attribute (\<open>None\<close> for \<open>undefined\<close>). \<open>validate_assigned\<close> validates the
  attributes among them.
\<close>

type_synonym assignment = "(string \<times> json option) list"

definition validate_assigned :: "env \<Rightarrow> assignment \<Rightarrow> (string \<times> string) list" where
  "validate_assigned e assigned =
     (let given = (\<lambda>k f. case map_of assigned k of None \<Rightarrow> [] | Some v \<Rightarrow> f v)
      in given ''firstName'' (notNull ''firstName'') @ given ''lastName'' (notNull ''lastName'')
         @ given ''email'' (notNull ''email'') @ given ''password'' (notNull ''password'')
         @ given ''firstName'' validate_firstName @ given ''lastName'' validate_lastName
         @ given ''email'' (validate_email e) @ given ''password'' validate_password)"

text \<open>
  \<open>bcrypt.hash(s, 12)\<close> of bcryptjs hashes a string and rejects any other value with
  its type; \<open>bcrypt.compare(s, hash)\<close> likewise wants two strings.
\<close>

definition hash_password :: "env \<Rightarrow> json option \<Rightarrow> js_error + string" where
  "hash_password e v =
     (case v of
        Some (JString p) \<Rightarrow> Inr (bcrypt_hash e p)
      | _ \<Rightarrow> Inl (Error (''Illegal arguments: '' @ js_typeof v @ '', number'')))"

definition correctPassword :: "env \<Rightarrow> json option \<Rightarrow> string option \<Rightarrow> js_error + bool" where
  "correctPassword e candidatePassword userPassword =
     (case (candidatePassword, userPassword) of
        (Some (JString p), Some h) \<Rightarrow> Inr (bcrypt_compare e p h)
      | _ \<Rightarrow>
          Inl (Error (''Illegal arguments: '' @ js_typeof candidatePassword @ '', ''
                      @ (if userPassword = None then ''undefined'' else ''string''))))"

text \<open>
  The hooks. \<open>beforeCreate\<close> hashes a password that is truthy. \<open>beforeUpdate\<close>, when
  \<open>user.changed('password')\<close> holds, hashes the password and sets
  \<open>passwordChangedAt\<close>. Both are given the password as assigned, and give the hash to
  store, if any.
\<close>

definition beforeCreate :: "env \<Rightarrow> json option \<Rightarrow> js_error + string option" where
  "beforeCreate e pw =
     (if js_truthy pw then map_sum id Some (hash_password e pw) else Inr None)"

definition beforeUpdate :: "env \<Rightarrow> assignment \<Rightarrow> user \<Rightarrow> js_error + user" where
  "beforeUpdate e assigned u =
     (case map_of assigned ''password'' of
        None \<Rightarrow> Inr u
      | Some pw \<Rightarrow>
          (case hash_password e pw of
             Inl err \<Rightarrow> Inl err
           | Inr h \<Rightarrow> Inr (u\<lparr>password := Some h, passwordChangedAt := Some (now e)\<rparr>)))"

text \<open>
  \<open>User.create\<close>: build the instance (the defaults of \<open>id\<close> and \<open>isActive\<close>),
  validate it, run \<open>beforeCreate\<close>, insert. The email is the string
  \<open>email.toLowerCase()\<close> gave, the role is what \<open>role || 'user'\<close> gave. A text column
  takes a number or a boolean as its text. The table refuses a value of \<open>role\<close>
  outside the enumeration, a second row with the same primary key and, by the unique
  index on \<open>email\<close>, a second row with the same email, soft-deleted rows included.
\<close>

definition User_create ::
  "env \<Rightarrow> users_table \<Rightarrow> json option \<Rightarrow> json option \<Rightarrow> string \<Rightarrow> json option \<Rightarrow> json
    \<Rightarrow> js_error + users_table \<times> user" where
  "User_create e db fn ln em pw rl =
     (let errors = validate_assigned e
                     [(''firstName'', fn), (''lastName'', ln), (''email'', Some (JString em)),
                      (''password'', pw)]
      in if errors \<noteq> [] then Inl (SequelizeValidationError errors)
         else
           (case beforeCreate e pw of
              Inl err \<Rightarrow> Inl err
            | Inr hashed \<Rightarrow>
                (let newUser = \<lparr>user_id = uuidv4 e, firstName = js_String (the fn),
                       lastName = js_String (the ln), email = em,
                       password = (if hashed = None then map_option js_String pw else hashed),
                       role = js_String rl, isActive = True, lastLogin = None,
                       passwordChangedAt = None, passwordResetToken = Null,
                       passwordResetExpires = Null, deletedAt = None\<rparr>
                 in if js_String rl \<notin> set [''user'', ''admin''] then
                      Inl (SequelizeDatabaseError
                             (''invalid input value for enum '' @ quoted ''enum_Users_role''
                              @ '': '' @ quoted (js_String rl)))
                    else if list_ex (\<lambda>r. user_id r = user_id newUser) db then
                      Inl (SequelizeUniqueConstraintError ''Validation error'')
                    else if list_ex (\<lambda>r. email r = em) db then
                      Inl (SequelizeUniqueConstraintError ''Email already in use'')
                    else Inr (db @ [newUser], newUser))))"

text \<open>
  \<open>user.save()\<close> on a loaded instance \<open>u\<close>, given the values assigned from the body
  and the names of the other attributes that changed: validate the assigned attributes
  (Sequelize has no option \<open>validateBeforeSave\<close>, so the handlers'
  \<open>{ validateBeforeSave: false }\<close> leaves validation on), run \<open>beforeUpdate\<close>,
  validate what the hook changed, and update the row with the instance's primary key.
  The UPDATE sets the assigned attributes and the changed ones, except those whose value
  on the instance is \<open>undefined\<close>: Sequelize leaves these out of the statement, and
  the row keeps what it had.
\<close>

definition write_assigned :: "assignment \<Rightarrow> user \<Rightarrow> user" where
  "write_assigned assigned row =
     (let text = (\<lambda>k old. case map_of assigned k of
                             Some (Some v) \<Rightarrow> js_String v
                           | _ \<Rightarrow> old)
      in row\<lparr>firstName := text ''firstName'' (firstName row),
             lastName := text ''lastName'' (lastName row),
             email := text ''email'' (email row)\<rparr>)"

definition write_changed :: "string list \<Rightarrow> user \<Rightarrow> user \<Rightarrow> user" where
  "write_changed changed u row =
     row\<lparr>password := (if ''password'' \<in> set changed \<and> password u \<noteq> None
                       then password u else password row),
         isActive := (if ''isActive'' \<in> set changed then isActive u else isActive row),
         lastLogin := (if ''lastLogin'' \<in> set changed then lastLogin u else lastLogin row),
         passwordChangedAt := (if ''passwordChangedAt'' \<in> set changed
            then passwordChangedAt u else passwordChangedAt row),
         passwordResetToken :=
           (if ''passwordResetToken'' \<in> set changed \<and> passwordResetToken u \<noteq> Undefined
            then passwordResetToken u else passwordResetToken row),
         passwordResetExpires :=
           (if ''passwordResetExpires'' \<in> set changed \<and> passwordResetExpires u \<noteq> Undefined
            then passwordResetExpires u else passwordResetExpires row)\<rparr>"

definition User_save ::
  "env \<Rightarrow> users_table \<Rightarrow> assignment \<Rightarrow> string list \<Rightarrow> user
    \<Rightarrow> js_error + users_table \<times> user" where
  "User_save e db assigned changed u =
     (let errors = validate_assigned e assigned
      in if errors \<noteq> [] then Inl (SequelizeValidationError errors)
         else
           (case beforeUpdate e assigned u of
              Inl err \<Rightarrow> Inl err
            | Inr hooked \<Rightarrow>
                (let hashed = (map_of assigned ''password'' \<noteq> None);
                     errors' = (if hashed
                                then validate_password (map_option JString (password hooked))
                                else []);
                     changed' = (if hashed then changed @ [''password'', ''passwordChangedAt'']
                                 else changed);
                     saved = write_assigned assigned hooked
                 in if errors' \<noteq> [] then Inl (SequelizeValidationError errors')
                    else if (case map_of assigned ''email'' of Some (Some v) \<Rightarrow> True | _ \<Rightarrow> False)
                            \<and> list_ex (\<lambda>r. user_id r \<noteq> user_id u \<and> email r = email saved) db
                    then Inl (SequelizeUniqueConstraintError ''Email already in use'')
                    else
                      Inr (map (\<lambda>row. if user_id row = user_id u
                                       then write_changed changed' saved
                                              (write_assigned assigned row)
                                       else row) db,
                           saved))))"

text \<open>
  \<open>createPasswordResetToken\<close>: the instance with the digest and the expiry set, and the
  plaintext secret.
\<close>

definition createPasswordResetToken :: "env \<Rightarrow> user \<Rightarrow> user \<times> string" where
  "createPasswordResetToken e u =
     (let resetToken = randomBytes_hex e
      in (u\<lparr>passwordResetToken := Value (sha256_hex e resetToken),
             passwordResetExpires := Value (now e + 10 * 60 * 1000)\<rparr>, resetToken))"


section \<open>Requests, replies and the log\<close>

type_synonym dict = "(string \<times> string) list"

text \<open>
  What the client sent as the body of the request: a JSON document, given by the object
  it denotes (the empty object when the request has no JSON body); a text that is not
  JSON; or more than the parser's limit.
\<close>

datatype payload = Document json_object | Malformed string | TooLarge

text \<open>
  The Express request. \<open>payload\<close> and \<open>headers_cookie\<close> are what the client sent;
  \<open>body\<close> and \<open>cookies\<close> are \<open>undefined\<close> until \<open>express.json()\<close> and
  \<open>cookieParser()\<close> have run. \<open>validation_errors\<close> is what \<open>validationResult(req)\<close>
  holds.
\<close>

record request =
  req_method :: string
  originalUrl :: string
  protocol :: string
  query :: dict
  ip :: string
  headers_host :: "string option"
  headers_authorization :: "string option"
  headers_cookie :: dict
  payload :: payload
  body :: "json_object option"
  cookies :: "dict option"
  params :: dict
  validation_errors :: "string list"

definition js_get :: "(string \<times> 'a) list \<Rightarrow> string \<Rightarrow> 'a option" where
  "js_get obj k = map_of obj k"

text \<open>What a middleware leaves on the request and the response for the next one.\<close>

record session =
  req_user :: "user option"
  res_locals_user :: "user option"

text \<open>The JSON documents the handlers send.\<close>

datatype response =
    TokenUser string string user
  | Message string string
  | Invalid string string "string list"
  | UserData string "user option"
  | UsersList string nat "user list"
  | MessageUser string string user
  | Errors string "string list"
  | NoData string
  | Service string string
  | RouteNotFound string
  | Failure string nat

text \<open>
  How a middleware or a handler ends: a response sent with a status, \<open>next()\<close>,
  \<open>next(err)\<close>, or an exception that leaves it (which Express hands to the error
  handler).
\<close>

datatype reply = Json nat response | Next | NextErr js_error | Throws js_error

text \<open>
  What winston is given (config/logger.js): a message with or without metadata, a
  message with an error object, and the line of the error handler. Then the state a
  request acts on.
\<close>

record log_meta =
  meta_query :: dict
  meta_body :: "json_object option"
  meta_ip :: string

datatype log_entry =
    Info string "log_meta option"
  | ErrorWith string js_error
  | ErrorLine nat string string string string

record store =
  users :: users_table
  logs :: "log_entry list"

section \<open>The authentication middleware (middleware/auth.middleware.js)\<close>

definition cookie_token :: "request \<Rightarrow> js_error + string option" where
  "cookie_token req =
     (case cookies req of
        None \<Rightarrow> Inl (TypeError ''Cannot read properties of undefined (reading 'jwt')'')
      | Some c \<Rightarrow> Inr (if truthy (js_get c ''jwt'') then js_get c ''jwt'' else None))"

definition extract_token :: "request \<Rightarrow> js_error + string option" where
  "extract_token req =
     (case headers_authorization req of
        Some a \<Rightarrow>
          if a \<noteq> [] \<and> startsWith a ''Bearer'' then Inr (at_index (split_space a) 1)
          else cookie_token req
      | None \<Rightarrow> cookie_token req)"

definition protect :: "env \<Rightarrow> users_table \<Rightarrow> request \<Rightarrow> session \<Rightarrow> session \<times> reply" where
  "protect e db req s =
     (case extract_token req of
        Inl err \<Rightarrow>
          (s, NextErr (AppError
            ''Invalid token or session expired. Please log in again.'' 401))
      | Inr None \<Rightarrow>
          (s, NextErr (AppError
            ''You are not logged in! Please log in to get access.'' 401))
      | Inr (Some token) \<Rightarrow>
          if token = [] then
            (s, NextErr (AppError
              ''You are not logged in! Please log in to get access.'' 401))
          else
            (case JWT_verify e token of
               None \<Rightarrow>
                 (s, NextErr (AppError
                   ''Invalid token or session expired. Please log in again.'' 401))
             | Some (decoded_id, decoded_iat) \<Rightarrow>
                 (case findByPk db decoded_id of
                    None \<Rightarrow>
                      (s, NextErr (AppError
                        ''The user belonging to this token no longer exists.'' 401))
                  | Some currentUser \<Rightarrow>
                      if changedPasswordAfter currentUser decoded_iat then
                        (s, NextErr (AppError
                          ''User recently changed password! Please log in again.'' 401))
                      else
                        (s\<lparr>req_user := Some currentUser,
                           res_locals_user := Some currentUser\<rparr>, Next))))"

definition restrictTo :: "string list \<Rightarrow> session \<Rightarrow> reply" where
  "restrictTo roles s =
     (case req_user s of
        None \<Rightarrow> Throws (TypeError ''Cannot read properties of undefined (reading 'role')'')
      | Some u \<Rightarrow>
          if role u \<notin> set roles then
            NextErr (AppError ''You do not have permission to perform this action'' 403)
          else Next)"

definition isLoggedIn :: "env \<Rightarrow> users_table \<Rightarrow> request \<Rightarrow> session \<Rightarrow> session \<times> reply" where
  "isLoggedIn e db req s =
     (case cookies req of
        None \<Rightarrow> (s, Next)
      | Some c \<Rightarrow>
          (case js_get c ''jwt'' of
             None \<Rightarrow> (s, Next)
           | Some token \<Rightarrow>
               if token = [] then (s, Next)
               else
                 (case JWT_verify e token of
                    None \<Rightarrow> (s, Next)
                  | Some (decoded_id, decoded_iat) \<Rightarrow>
                      (case findByPk db decoded_id of
                         None \<Rightarrow> (s, Next)
                       | Some currentUser \<Rightarrow>
                           if changedPasswordAfter currentUser decoded_iat then (s, Next)
                           else (s\<lparr>res_locals_user := Some currentUser\<rparr>, Next)))))"

text \<open>
  routes/user.routes.js: \<open>router.use(protect); router.use(restrictTo('admin'))\<close>.
  The second runs only when the first called \<open>next()\<close>.
\<close>

definition admin_gate :: "env \<Rightarrow> users_table \<Rightarrow> request \<Rightarrow> session \<Rightarrow> session \<times> reply" where
  "admin_gate e db req s =
     (case protect e db req s of
        (s', Next) \<Rightarrow> (s', restrictTo [''admin''] s')
      | (s', r) \<Rightarrow> (s', r))"

section \<open>Sending mail (utils/email.js)\<close>

text \<open>
  \<open>sendEmail\<close> hands the message to the transport. When the transport accepts it,
  \<open>sendEmail\<close> logs one line and returns; when the transport rejects it, \<open>sendEmail\<close>
  gives winston its text and the transport's error, and throws. The second component
  tells which.
\<close>

definition sendEmail :: "env \<Rightarrow> store \<Rightarrow> mail \<Rightarrow> store \<times> bool" where
  "sendEmail e st m =
     (case sendMail e m of
        None \<Rightarrow> (st\<lparr>logs := logs st @ [Info (''Email sent to '' @ mail_to m) None]\<rparr>, True)
      | Some err \<Rightarrow> (st\<lparr>logs := logs st @ [ErrorWith ''Error sending email:'' err]\<rparr>, False))"

section \<open>The authentication controller (controllers/auth.controller.js)\<close>

definition signToken :: "env \<Rightarrow> string \<Rightarrow> string" where
  "signToken e ident = JWT_sign e ident"

definition createSendToken :: "env \<Rightarrow> user \<Rightarrow> nat \<Rightarrow> reply" where
  "createSendToken e u statusCode =
     Json statusCode (TokenUser ''success'' (signToken e (user_id u)) (u\<lparr>password := None\<rparr>))"

text \<open>\<open>email.toLowerCase()\<close> on the value taken from the body.\<close>

definition email_toLowerCase :: "json option \<Rightarrow> js_error + string" where
  "email_toLowerCase v =
     (case v of
        Some (JString em) \<Rightarrow> Inr (toLowerCase em)
      | Some JNull \<Rightarrow> Inl (TypeError ''Cannot read properties of null (reading 'toLowerCase')'')
      | None \<Rightarrow>
          Inl (TypeError ''Cannot read properties of undefined (reading 'toLowerCase')'')
      | _ \<Rightarrow> Inl (TypeError ''email.toLowerCase is not a function''))"

definition register :: "env \<Rightarrow> store \<Rightarrow> request \<Rightarrow> store \<times> reply" where
  "register e st req =
     (if validation_errors req \<noteq> [] then
        (st, Json 400 (Invalid ''error'' ''Validation failed'' (validation_errors req)))
      else
        (case body req of
           None \<Rightarrow>
             (st, NextErr (TypeError
               ''Cannot destructure property 'firstName' of 'req.body' as it is undefined.''))
         | Some b \<Rightarrow>
             (case where_equals ''email'' (js_get b ''email'') of
                Inl err \<Rightarrow> (st, NextErr err)
              | Inr same \<Rightarrow>
                  (case findOne (\<lambda>u. same (email u)) (users st) of
                     Some existingUser \<Rightarrow>
                       (st, NextErr (AppError ''Email already in use'' 409))
                   | None \<Rightarrow>
                       (case email_toLowerCase (js_get b ''email'') of
                          Inl err \<Rightarrow> (st, NextErr err)
                        | Inr lowered \<Rightarrow>
                            (case User_create e (users st) (js_get b ''firstName'')
                                    (js_get b ''lastName'') lowered (js_get b ''password'')
                                    (js_or (js_get b ''role'') (JString ''user'')) of
                               Inl err \<Rightarrow> (st, NextErr err)
                             | Inr (db', newUser) \<Rightarrow>
                                 (st\<lparr>users := db'\<rparr>, createSendToken e newUser 201)))))))"

definition login :: "env \<Rightarrow> store \<Rightarrow> request \<Rightarrow> store \<times> reply" where
  "login e st req =
     (case body req of
        None \<Rightarrow>
          (st, NextErr (TypeError
            ''Cannot destructure property 'email' of 'req.body' as it is undefined.''))
      | Some b \<Rightarrow>
          if \<not> js_truthy (js_get b ''email'') \<or> \<not> js_truthy (js_get b ''password'') then
            (st, NextErr (AppError ''Please provide email and password'' 400))
          else
            (case email_toLowerCase (js_get b ''email'') of
               Inl err \<Rightarrow> (st, NextErr err)
             | Inr lowered \<Rightarrow>
                 (case findOne (\<lambda>u. email u = lowered) (users st) of
                    None \<Rightarrow> (st, NextErr (AppError ''Incorrect email or password'' 401))
                  | Some user \<Rightarrow>
                      (case correctPassword e (js_get b ''password'') (password user) of
                         Inl err \<Rightarrow> (st, NextErr err)
                       | Inr False \<Rightarrow>
                           (st, NextErr (AppError ''Incorrect email or password'' 401))
                       | Inr True \<Rightarrow>
                           if \<not> isActive user then
                             (st, NextErr (AppError ''Your account has been deactivated'' 403))
                           else
                             (case User_save e (users st) [] [''lastLogin'']
                                     (user\<lparr>lastLogin := Some (now e)\<rparr>) of
                                Inl err \<Rightarrow> (st, NextErr err)
                              | Inr (db', saved) \<Rightarrow>
                                  (st\<lparr>users := db'\<rparr>, createSendToken e saved 200))))))"

text \<open>
  The message of \<open>forgotPassword\<close>: the reset URL is made of \<open>req.protocol\<close>, the
  \<open>Host\<close> header and the plaintext secret.
\<close>

definition reset_mail :: "request \<Rightarrow> string \<Rightarrow> string \<Rightarrow> mail" where
  "reset_mail req recipient resetToken =
     (let resetURL = protocol req @ ''://'' @ or_else (headers_host req) ''undefined''
                     @ ''/api/auth/reset-password/'' @ resetToken
      in \<lparr>mail_to = recipient,
          mail_subject = ''Your password reset token (valid for 10 min)'',
          mail_text =
            ''Forgot your password? Submit a PATCH request with your new password and passwordConfirm to: ''
            @ resetURL @ ''.'' @ [CHR 0x0A]
            @ ''If you didn't forget your password, please ignore this email!''\<rparr>)"

definition forgotPassword :: "env \<Rightarrow> store \<Rightarrow> request \<Rightarrow> store \<times> reply" where
  "forgotPassword e st req =
     (case body req of
        None \<Rightarrow>
          (st, NextErr (TypeError ''Cannot read properties of undefined (reading 'email')''))
      | Some b \<Rightarrow>
          (case where_equals ''email'' (js_get b ''email'') of
             Inl err \<Rightarrow> (st, NextErr err)
           | Inr same \<Rightarrow>
               (case findOne (\<lambda>u. same (email u)) (users st) of
                  None \<Rightarrow>
                    (st, NextErr (AppError ''There is no user with that email address.'' 404))
                | Some found \<Rightarrow>
                    (let (user, resetToken) = createPasswordResetToken e (defaultScope found)
                     in case User_save e (users st) []
                               [''passwordResetToken'', ''passwordResetExpires''] user of
                          Inl err \<Rightarrow> (st, NextErr err)
                        | Inr (db1, saved) \<Rightarrow>
                            (case sendEmail e (st\<lparr>users := db1\<rparr>)
                                    (reset_mail req (email saved) resetToken) of
                               (st1, True) \<Rightarrow>
                                 (st1, Json 200 (Message ''success'' ''Token sent to email!''))
                             | (st1, False) \<Rightarrow>
                                 (case User_save e (users st1) []
                                         [''passwordResetToken'', ''passwordResetExpires'']
                                         (saved\<lparr>passwordResetToken := Undefined,
                                                passwordResetExpires := Undefined\<rparr>) of
                                    Inl err \<Rightarrow> (st1, NextErr err)
                                  | Inr (db2, cleared) \<Rightarrow>
                                      (st1\<lparr>users := db2\<rparr>,
                                       NextErr (AppError
                                         ''There was an error sending the email. Try again later!''
                                         500))))))))"

text \<open>
  \<open>resetPassword\<close> names \<open>crypto\<close> and \<open>Op\<close>. The module requires jsonwebtoken,
  http-status-codes, express-validator, the User model, AppError and \<open>sendEmail\<close>, and
  declares \<open>signToken\<close> and \<open>createSendToken\<close>: it binds neither name. \<open>crypto\<close> is
  then looked up among the globals, where a Node.js release has either nothing of that
  name or the Web Crypto object, which has no \<open>createHash\<close>; \<open>Op\<close> is no global.
\<close>

definition controller_crypto_sha256_hex :: "env \<Rightarrow> string option \<Rightarrow> js_error + string" where
  "controller_crypto_sha256_hex e secret =
     (if node_has_global_crypto e then Inl (TypeError ''crypto.createHash is not a function'')
      else Inl (ReferenceError ''crypto is not defined''))"

definition controller_Op_gt :: "js_error + (int \<Rightarrow> int \<Rightarrow> bool)" where
  "controller_Op_gt = Inl (ReferenceError ''Op is not defined'')"

definition resetPassword :: "env \<Rightarrow> store \<Rightarrow> request \<Rightarrow> store \<times> reply" where
  "resetPassword e st req =
     (case controller_crypto_sha256_hex e (js_get (params req) ''token'') of
        Inl err \<Rightarrow> (st, NextErr err)
      | Inr hashedToken \<Rightarrow>
          (case controller_Op_gt of
             Inl err \<Rightarrow> (st, NextErr err)
           | Inr gt \<Rightarrow>
               (case findOne (\<lambda>u. passwordResetToken u = Value hashedToken
                                  \<and> (case passwordResetExpires u of
                                        Value expires \<Rightarrow> gt expires (now e)
                                      | _ \<Rightarrow> False)) (users st) of
                  None \<Rightarrow> (st, NextErr (AppError ''Token is invalid or has expired'' 400))
                | Some found \<Rightarrow>
                    (case body req of
                       None \<Rightarrow>
                         (st, NextErr (TypeError
                           ''Cannot read properties of undefined (reading 'password')''))
                     | Some b \<Rightarrow>
                         (case User_save e (users st)
                                 (if js_get b ''password'' = None then []
                                  else [(''password'', js_get b ''password'')])
                                 [''passwordResetToken'', ''passwordResetExpires'']
                                 ((defaultScope found)\<lparr>passwordResetToken := Null,
                                    passwordResetExpires := Null\<rparr>) of
                            Inl err \<Rightarrow> (st, NextErr err)
                          | Inr (db', saved) \<Rightarrow>
                              (st\<lparr>users := db'\<rparr>, createSendToken e saved 200))))))"

definition updatePassword :: "env \<Rightarrow> store \<Rightarrow> session \<Rightarrow> request \<Rightarrow> store \<times> reply" where
  "updatePassword e st s req =
     (case req_user s of
        None \<Rightarrow>
          (st, NextErr (TypeError ''Cannot read properties of undefined (reading 'id')''))
      | Some me \<Rightarrow>
          (case findOne (\<lambda>u. user_id u = user_id me) (users st) of
             None \<Rightarrow>
               (st, NextErr (TypeError
                 ''Cannot read properties of null (reading 'correctPassword')''))
           | Some user \<Rightarrow>
               (case body req of
                  None \<Rightarrow>
                    (st, NextErr (TypeError
                      ''Cannot read properties of undefined (reading 'currentPassword')''))
                | Some b \<Rightarrow>
                    (case correctPassword e (js_get b ''currentPassword'') (password user) of
                       Inl err \<Rightarrow> (st, NextErr err)
                     | Inr False \<Rightarrow>
                         (st, NextErr (AppError ''Your current password is wrong.'' 401))
                     | Inr True \<Rightarrow>
                         (case User_save e (users st)
                                 (if js_get b ''newPassword'' = map_option JString (password user)
                                  then [] else [(''password'', js_get b ''newPassword'')])
                                 [] user of
                            Inl err \<Rightarrow> (st, NextErr err)
                          | Inr (db', saved) \<Rightarrow>
                              (st\<lparr>users := db'\<rparr>, createSendToken e saved 200))))))"

definition getMe :: "env \<Rightarrow> store \<Rightarrow> session \<Rightarrow> request \<Rightarrow> store \<times> reply" where
  "getMe e st s req =
     (case req_user s of
        None \<Rightarrow>
          (st, NextErr (TypeError ''Cannot read properties of undefined (reading 'id')''))
      | Some me \<Rightarrow> (st, Json 200 (UserData ''success'' (findByPk (users st) (user_id me)))))"

text \<open>
  \<open>updateMe\<close> keeps the keys \<open>firstName\<close>, \<open>lastName\<close> and \<open>email\<close> of the body;
  \<open>user.update\<close> assigns them to the instance and saves those attributes.
\<close>

definition updateMe :: "env \<Rightarrow> store \<Rightarrow> session \<Rightarrow> request \<Rightarrow> store \<times> reply" where
  "updateMe e st s req =
     (case body req of
        None \<Rightarrow>
          (st, NextErr (TypeError
            ''Cannot read properties of undefined (reading 'password')''))
      | Some b \<Rightarrow>
          if js_truthy (js_get b ''password'') \<or> js_truthy (js_get b ''passwordConfirm'') then
            (st, NextErr (AppError
              ''This route is not for password updates. Please use /update-password.'' 400))
          else
            (let filteredBody =
                   filter (\<lambda>(k, v). k \<in> set [''firstName'', ''lastName'', ''email'']) b
             in case req_user s of
                  None \<Rightarrow>
                    (st, NextErr (TypeError
                      ''Cannot read properties of undefined (reading 'id')''))
                | Some me \<Rightarrow>
                    (case findByPk (users st) (user_id me) of
                       None \<Rightarrow>
                         (st, NextErr (TypeError
                           ''Cannot read properties of null (reading 'update')''))
                     | Some user \<Rightarrow>
                         (case User_save e (users st)
                                 (map (\<lambda>(k, v). (k, Some v)) filteredBody) [] user of
                            Inl err \<Rightarrow> (st, NextErr err)
                          | Inr (db', updatedUser) \<Rightarrow>
                              (st\<lparr>users := db'\<rparr>,
                               Json 200 (UserData ''success'' (Some updatedUser)))))))"

section \<open>The user controller (controllers/user.controller.js)\<close>

definition getAllUsers :: "env \<Rightarrow> store \<Rightarrow> request \<Rightarrow> store \<times> reply" where
  "getAllUsers e st req =
     (let found = map defaultScope (filter (\<lambda>u. deletedAt u = None) (users st))
      in (st, Json 200 (UsersList ''success'' (length found) found)))"

definition getUser :: "env \<Rightarrow> store \<Rightarrow> request \<Rightarrow> store \<times> reply" where
  "getUser e st req =
     (case js_get (params req) ''id'' of
        None \<Rightarrow> (st, NextErr (AppError ''No user found with that ID'' 404))
      | Some pid \<Rightarrow>
          (case findByPk (users st) pid of
             None \<Rightarrow> (st, NextErr (AppError ''No user found with that ID'' 404))
           | Some u \<Rightarrow> (st, Json 200 (UserData ''success'' (Some u)))))"

definition createUser :: "env \<Rightarrow> store \<Rightarrow> request \<Rightarrow> store \<times> reply" where
  "createUser e st req =
     (if validation_errors req \<noteq> [] then
        (st, Json 400 (Errors ''fail'' (validation_errors req)))
      else
        (case body req of
           None \<Rightarrow>
             (st, NextErr (TypeError
               ''Cannot destructure property 'firstName' of 'req.body' as it is undefined.''))
         | Some b \<Rightarrow>
             (case where_equals ''email'' (js_get b ''email'') of
                Inl err \<Rightarrow> (st, NextErr err)
              | Inr same \<Rightarrow>
                  (case findOne (\<lambda>u. same (email u)) (users st) of
                     Some existingUser \<Rightarrow>
                       (st, NextErr (AppError ''Email already in use'' 409))
                   | None \<Rightarrow>
                       (case email_toLowerCase (js_get b ''email'') of
                          Inl err \<Rightarrow> (st, NextErr err)
                        | Inr lowered \<Rightarrow>
                            (case User_create e (users st) (js_get b ''firstName'')
                                    (js_get b ''lastName'') lowered (js_get b ''password'')
                                    (js_or (js_get b ''role'') (JString ''user'')) of
                               Inl err \<Rightarrow> (st, NextErr err)
                             | Inr (db', newUser) \<Rightarrow>
                                 (st\<lparr>users := db'\<rparr>,
                                  Json 201 (UserData ''success''
                                    (Some (newUser\<lparr>password := None\<rparr>))))))))))"

text \<open>
  \<open>User.update(values, { where: { id }, returning: true, plain: true })\<close>, on the
  values \<open>updateUser\<close> kept from the body. Sequelize validates the given attributes
  (a null is a violation of \<open>allowNull: false\<close>), and updates the visible row with that
  identifier. A text column takes a number or a boolean as its text; \<open>isActive\<close> takes
  a boolean, the strings \<open>true\<close> and \<open>false\<close> and the numbers 1 and 0, which Sequelize
  turns into booleans, and the database reads the text of any other value as a boolean
  or refuses it. With \<open>returning\<close> and \<open>plain\<close> the query gives the updated row, or
  \<open>null\<close> when there is none.
\<close>

definition boolean_column :: "env \<Rightarrow> json \<Rightarrow> bool option" where
  "boolean_column e v =
     (case v of
        JBool b \<Rightarrow> Some b
      | JNull \<Rightarrow> None
      | JNumber n \<Rightarrow>
          (if n = 1 then Some True else if n = 0 then Some False
           else boolean_input e (js_String v))
      | JString s \<Rightarrow>
          (if s = ''true'' then Some True else if s = ''false'' then Some False
           else boolean_input e s))"

definition validate_values :: "env \<Rightarrow> json_object \<Rightarrow> (string \<times> string) list" where
  "validate_values e values =
     (let given = (\<lambda>k f. case js_get values k of None \<Rightarrow> [] | Some v \<Rightarrow> f (Some v))
      in given ''firstName'' (notNull ''firstName'') @ given ''lastName'' (notNull ''lastName'')
         @ given ''email'' (notNull ''email'') @ given ''role'' (notNull ''role'')
         @ given ''isActive'' (notNull ''isActive'')
         @ given ''firstName'' validate_firstName @ given ''lastName'' validate_lastName
         @ given ''email'' (validate_email e))"

definition set_columns :: "env \<Rightarrow> json_object \<Rightarrow> user \<Rightarrow> user" where
  "set_columns e values u =
     (let text = (\<lambda>k old. case js_get values k of Some v \<Rightarrow> js_String v | None \<Rightarrow> old)
      in u\<lparr>firstName := text ''firstName'' (firstName u),
           lastName := text ''lastName'' (lastName u),
           email := text ''email'' (email u),
           role := text ''role'' (role u),
           isActive := (case js_get values ''isActive'' of
                          None \<Rightarrow> isActive u
                        | Some v \<Rightarrow>
                            (case boolean_column e v of None \<Rightarrow> isActive u | Some t \<Rightarrow> t))\<rparr>)"

definition User_update ::
  "env \<Rightarrow> users_table \<Rightarrow> json_object \<Rightarrow> string option
    \<Rightarrow> js_error + users_table \<times> user option" where
  "User_update e db values pid =
     (let errors = validate_values e values;
          matched = filter (\<lambda>r. Some (user_id r) = pid \<and> deletedAt r = None) db
      in if errors \<noteq> [] then Inl (SequelizeValidationError errors)
         else if pid = None then
           Inl (Error (''WHERE parameter '' @ quoted ''id'' @ '' has invalid ''
                       @ quoted ''undefined'' @ '' value''))
         else if (case js_get values ''role'' of
                    None \<Rightarrow> False | Some v \<Rightarrow> js_String v \<notin> set [''user'', ''admin'']) then
           Inl (SequelizeDatabaseError
                  (''invalid input value for enum '' @ quoted ''enum_Users_role'' @ '': ''
                   @ quoted (js_String (the (js_get values ''role'')))))
         else if (case js_get values ''isActive'' of
                    None \<Rightarrow> False | Some v \<Rightarrow> boolean_column e v = None) then
           Inl (SequelizeDatabaseError
                  (''invalid input syntax for type boolean: ''
                   @ quoted (js_String (the (js_get values ''isActive'')))))
         else if matched \<noteq> []
                 \<and> (case js_get values ''email'' of
                       None \<Rightarrow> False
                     | Some v \<Rightarrow>
                         list_ex (\<lambda>r. Some (user_id r) \<noteq> pid \<and> email r = js_String v) db) then
           Inl (SequelizeUniqueConstraintError ''Email already in use'')
         else
           Inr (map (\<lambda>r. if Some (user_id r) = pid \<and> deletedAt r = None
                          then set_columns e values r else r) db,
                map_option (set_columns e values) (at_index matched 0)))"

text \<open>
  \<open>updateUser\<close> takes the first element of what \<open>User.update\<close> resolves to. With
  \<open>returning\<close>, Sequelize resolves to \<open>[affectedRows.length, affectedRows]\<close>, where
  \<open>affectedRows\<close> is here the updated row or \<open>null\<close>: reading \<open>length\<close> of
  \<open>null\<close> throws, and a row has no \<open>length\<close>, so \<open>updated\<close> is \<open>undefined\<close>.
\<close>

definition updateUser :: "env \<Rightarrow> store \<Rightarrow> request \<Rightarrow> store \<times> reply" where
  "updateUser e st req =
     (case body req of
        None \<Rightarrow> (st, NextErr (TypeError ''Cannot convert undefined or null to object''))
      | Some b \<Rightarrow>
          (let filteredBody =
                 filter (\<lambda>(k, v). k \<in> set [''firstName'', ''lastName'', ''email'', ''role'',
                                            ''isActive'']) b
           in case User_update e (users st) filteredBody (js_get (params req) ''id'') of
                Inl err \<Rightarrow> (st, NextErr err)
              | Inr (db', None) \<Rightarrow>
                  (st\<lparr>users := db'\<rparr>,
                   NextErr (TypeError ''Cannot read properties of null (reading 'length')''))
              | Inr (db', Some row) \<Rightarrow>
                  (st\<lparr>users := db'\<rparr>,
                   NextErr (AppError ''No user found with that ID'' 404))))"

definition deleteUser :: "env \<Rightarrow> store \<Rightarrow> request \<Rightarrow> store \<times> reply" where
  "deleteUser e st req =
     (case js_get (params req) ''id'' of
        None \<Rightarrow> (st, NextErr (AppError ''No user found with that ID'' 404))
      | Some pid \<Rightarrow>
          (case findByPk (users st) pid of
             None \<Rightarrow> (st, NextErr (AppError ''No user found with that ID'' 404))
           | Some user \<Rightarrow>
               (st\<lparr>users := map (\<lambda>r. if user_id r = user_id user
                                       then r\<lparr>deletedAt := Some (now e)\<rparr> else r) (users st)\<rparr>,
                Json 204 (NoData ''success''))))"

definition deactivateUser :: "env \<Rightarrow> store \<Rightarrow> request \<Rightarrow> store \<times> reply" where
  "deactivateUser e st req =
     (case js_get (params req) ''id'' of
        None \<Rightarrow> (st, NextErr (AppError ''No user found with that ID'' 404))
      | Some pid \<Rightarrow>
          (case findByPk (users st) pid of
             None \<Rightarrow> (st, NextErr (AppError ''No user found with that ID'' 404))
           | Some user \<Rightarrow>
               (case User_save e (users st) [] (if isActive user then [''isActive''] else [])
                       (user\<lparr>isActive := False\<rparr>) of
                  Inl err \<Rightarrow> (st, NextErr err)
                | Inr (db', saved) \<Rightarrow>
                    (st\<lparr>users := db'\<rparr>,
                     Json 200 (MessageUser ''success'' ''User deactivated successfully''
                       saved)))))"

definition reactivateUser :: "env \<Rightarrow> store \<Rightarrow> request \<Rightarrow> store \<times> reply" where
  "reactivateUser e st req =
     (case js_get (params req) ''id'' of
        None \<Rightarrow> (st, NextErr (AppError ''No user found with that ID'' 404))
      | Some pid \<Rightarrow>
          (case map_option defaultScope (find (\<lambda>u. user_id u = pid) (users st)) of
             None \<Rightarrow> (st, NextErr (AppError ''No user found with that ID'' 404))
           | Some user \<Rightarrow>
               (let restored =
                      (if deletedAt user \<noteq> None then
                         map (\<lambda>r. if user_id r = user_id user
                                   then r\<lparr>deletedAt := None\<rparr> else r) (users st)
                       else users st)
                in case User_save e restored [] (if isActive user then [] else [''isActive''])
                          (user\<lparr>deletedAt := None, isActive := True\<rparr>) of
                     Inl err \<Rightarrow> (st\<lparr>users := restored\<rparr>, NextErr err)
                   | Inr (db', saved) \<Rightarrow>
                       (st\<lparr>users := db'\<rparr>,
                        Json 200 (MessageUser ''success'' ''User reactivated successfully''
                          saved)))))"

section \<open>The validation middleware (middleware/validation.middleware.js)\<close>

text \<open>
  The chains trim \<open>firstName\<close> and \<open>lastName\<close>, trim and normalize \<open>email\<close>, and leave
  every other field as it came. A sanitizer works on the text of the value
  (express-validator's \<open>toString\<close>: the empty string for \<open>null\<close>) and leaves a string
  in the body. \<open>validate\<close> runs the chains of a route, keeps what they found on the
  request, and ends in the error of status 422 when they found something.
\<close>

definition trim :: "string \<Rightarrow> string" where
  "trim v = rev (dropWhile is_space (rev (dropWhile is_space v)))"

definition validator_toString :: "json \<Rightarrow> string" where
  "validator_toString v = (if v = JNull then [] else js_String v)"

definition sanitize_field :: "env \<Rightarrow> string \<Rightarrow> json \<Rightarrow> json" where
  "sanitize_field e k v =
     (if k = ''firstName'' \<or> k = ''lastName'' then JString (trim (validator_toString v))
      else if k = ''email'' then JString (normalizeEmail e (trim (validator_toString v)))
      else v)"

definition sanitize_body :: "env \<Rightarrow> string list \<Rightarrow> json_object \<Rightarrow> json_object" where
  "sanitize_body e sanitized b =
     map (\<lambda>(k, v). if k \<in> set sanitized then (k, sanitize_field e k v) else (k, v)) b"

definition validate :: "env \<Rightarrow> string \<Rightarrow> string list \<Rightarrow> request \<Rightarrow> request \<times> reply" where
  "validate e rules sanitized req =
     (let b' = map_option (sanitize_body e sanitized) (body req);
          errors = express_validator e rules (case b' of None \<Rightarrow> [] | Some b \<Rightarrow> b)
                     (params req) (query req);
          req' = req\<lparr>body := b', validation_errors := errors\<rparr>
      in if errors = [] then (req', Next)
         else (req', NextErr (AppError ''Validation failed'' 422)))"

section \<open>The application (app.js)\<close>

text \<open>
  Modelled from the spec: utils/appError.js is not among the sources. An \<open>AppError\<close>
  carries the message and the status code it is built with, and the boundary answers with
  that code; an error of another kind has no status, and the handler's
  \<open>err.status || 500\<close> answers 500. The error of the body parser has the status
  body-parser gives it.
\<close>

definition err_status :: "js_error \<Rightarrow> nat" where
  "err_status err =
     (case err of
        AppError m c \<Rightarrow> if c = 0 then 500 else c
      | BodyParserError c m \<Rightarrow> if c = 0 then 500 else c
      | _ \<Rightarrow> 500)"

text \<open>
  \<open>err.message\<close>. The message of a Sequelize validation error lists its items, each
  as its type, a colon and its message, with a comma and a line break between them.
\<close>

fun join_items :: "(string \<times> string) list \<Rightarrow> string" where
  "join_items [] = []"
| "join_items [(t, m)] = t @ '': '' @ m"
| "join_items ((t, m) # item # items) =
     t @ '': '' @ m @ '','' @ [CHR 0x0A] @ join_items (item # items)"

definition err_message :: "js_error \<Rightarrow> string" where
  "err_message err =
     (case err of
        AppError m c \<Rightarrow> m
      | TypeError m \<Rightarrow> m
      | ReferenceError m \<Rightarrow> m
      | Error m \<Rightarrow> m
      | SequelizeValidationError items \<Rightarrow> join_items items
      | SequelizeUniqueConstraintError m \<Rightarrow> m
      | SequelizeDatabaseError m \<Rightarrow> m
      | BodyParserError c m \<Rightarrow> m)"

text \<open>
  The request logger, mounted before the body parsers; the parsers; the error handler,
  which logs status, message, URL, method and address, and answers with the status.
  \<open>express.json()\<close> ends a request whose body is not JSON with an error of status 400
  that carries the message of \<open>JSON.parse\<close>, and one whose body is too large with an
  error of status 413.
\<close>

definition request_logger :: "store \<Rightarrow> request \<Rightarrow> store" where
  "request_logger st req =
     st\<lparr>logs := logs st @
        [Info (req_method req @ '' '' @ originalUrl req)
           (Some \<lparr>meta_query = query req, meta_body = body req, meta_ip = ip req\<rparr>)]\<rparr>"

definition express_json :: "env \<Rightarrow> request \<Rightarrow> js_error + request" where
  "express_json e req =
     (case payload req of
        Document b \<Rightarrow> Inr (req\<lparr>body := Some b\<rparr>)
      | Malformed text \<Rightarrow> Inl (BodyParserError 400 (JSON_parse_message e text))
      | TooLarge \<Rightarrow> Inl (BodyParserError 413 ''request entity too large''))"

definition cookieParser :: "request \<Rightarrow> request" where
  "cookieParser req = req\<lparr>cookies := Some (headers_cookie req)\<rparr>"

definition error_handler :: "store \<Rightarrow> request \<Rightarrow> js_error \<Rightarrow> store \<times> reply" where
  "error_handler st req err =
     (st\<lparr>logs := logs st @
         [ErrorLine (err_status err) (err_message err) (originalUrl req) (req_method req)
            (ip req)]\<rparr>,
      Json (err_status err)
        (Failure (or_else (Some (err_message err)) ''Internal Server Error'') (err_status err)))"

text \<open>
  The route of a request, as the routers match it: the health check, the routes of
  routes/auth.routes.js (the last four behind \<open>router.use(protect)\<close>, \<open>OtherAuth\<close>
  being a path under /api/auth that no route matches), the routes of
  routes/user.routes.js (all behind \<open>protect\<close> and \<open>restrictTo('admin')\<close>), and a
  path no router is mounted on.
\<close>

datatype endpoint =
    Health
  | Register | Login | ForgotPassword | ResetPassword
  | GetMe | UpdateMe | UpdatePassword | OtherAuth
  | GetAllUsers | CreateUser | GetUser | UpdateUser | DeleteUser
  | DeactivateUser | ReactivateUser | OtherUsers
  | Unmatched

type_synonym exchange = "store \<times> session \<times> request"

text \<open>The next middleware of a chain runs when the one before called \<open>next()\<close>.\<close>

definition and_then ::
  "exchange \<times> reply \<Rightarrow> (exchange \<Rightarrow> exchange \<times> reply) \<Rightarrow> exchange \<times> reply" where
  "and_then r f = (case r of (x, Next) \<Rightarrow> f x | (x, other) \<Rightarrow> (x, other))"

definition protecting :: "env \<Rightarrow> exchange \<Rightarrow> exchange \<times> reply" where
  "protecting e x =
     (case x of (st, s, req) \<Rightarrow>
        (case protect e (users st) req s of (s', r) \<Rightarrow> ((st, s', req), r)))"

definition restricting :: "string list \<Rightarrow> exchange \<Rightarrow> exchange \<times> reply" where
  "restricting roles x = (case x of (st, s, req) \<Rightarrow> ((st, s, req), restrictTo roles s))"

definition validating :: "env \<Rightarrow> string \<Rightarrow> string list \<Rightarrow> exchange \<Rightarrow> exchange \<times> reply" where
  "validating e rules sanitized x =
     (case x of (st, s, req) \<Rightarrow>
        (case validate e rules sanitized req of (req', r) \<Rightarrow> ((st, s, req'), r)))"

definition handling ::
  "(store \<Rightarrow> session \<Rightarrow> request \<Rightarrow> store \<times> reply) \<Rightarrow> exchange \<Rightarrow> exchange \<times> reply" where
  "handling h x =
     (case x of (st, s, req) \<Rightarrow> (case h st s req of (st', r) \<Rightarrow> ((st', s, req), r)))"

definition admin_only :: "env \<Rightarrow> exchange \<Rightarrow> exchange \<times> reply" where
  "admin_only e x = and_then (protecting e x) (restricting [''admin''])"

text \<open>
  \<open>router.post('/register', authValidation.register, authController.register)\<close>.
\<close>

definition post_register :: "env \<Rightarrow> exchange \<Rightarrow> exchange \<times> reply" where
  "post_register e x =
     and_then (validating e ''register'' [''firstName'', ''lastName'', ''email''] x)
       (handling (\<lambda>st s req. register e st req))"

definition route :: "env \<Rightarrow> endpoint \<Rightarrow> exchange \<Rightarrow> exchange \<times> reply" where
  "route e ep x =
     (case ep of
        Health \<Rightarrow> (x, Json 200 (Service ''success'' ''User Management Service is running''))
      | Register \<Rightarrow> post_register e x
      | Login \<Rightarrow>
          and_then (validating e ''login'' [''email''] x)
            (handling (\<lambda>st s req. login e st req))
      | ForgotPassword \<Rightarrow>
          and_then (validating e ''forgotPassword'' [''email''] x)
            (handling (\<lambda>st s req. forgotPassword e st req))
      | ResetPassword \<Rightarrow>
          and_then (validating e ''resetPassword'' [] x)
            (handling (\<lambda>st s req. resetPassword e st req))
      | GetMe \<Rightarrow> and_then (protecting e x) (handling (getMe e))
      | UpdateMe \<Rightarrow> and_then (protecting e x) (handling (updateMe e))
      | UpdatePassword \<Rightarrow>
          and_then (and_then (protecting e x) (validating e ''updatePassword'' []))
            (handling (updatePassword e))
      | OtherAuth \<Rightarrow> protecting e x
      | GetAllUsers \<Rightarrow>
          and_then (admin_only e x) (handling (\<lambda>st s req. getAllUsers e st req))
      | CreateUser \<Rightarrow>
          and_then
            (and_then (admin_only e x)
               (validating e ''createUser'' [''firstName'', ''lastName'', ''email'']))
            (handling (\<lambda>st s req. createUser e st req))
      | GetUser \<Rightarrow>
          and_then (and_then (admin_only e x) (validating e ''idParam'' []))
            (handling (\<lambda>st s req. getUser e st req))
      | UpdateUser \<Rightarrow>
          and_then
            (and_then (and_then (admin_only e x) (validating e ''idParam'' []))
               (validating e ''updateUser'' [''firstName'', ''lastName'', ''email'']))
            (handling (\<lambda>st s req. updateUser e st req))
      | DeleteUser \<Rightarrow>
          and_then (and_then (admin_only e x) (validating e ''idParam'' []))
            (handling (\<lambda>st s req. deleteUser e st req))
      | DeactivateUser \<Rightarrow>
          and_then (and_then (admin_only e x) (validating e ''idParam'' []))
            (handling (\<lambda>st s req. deactivateUser e st req))
      | ReactivateUser \<Rightarrow>
          and_then (and_then (admin_only e x) (validating e ''idParam'' []))
            (handling (\<lambda>st s req. reactivateUser e st req))
      | OtherUsers \<Rightarrow> admin_only e x
      | Unmatched \<Rightarrow> (x, Next))"

text \<open>
  The application on a request as it arrives (Express gives it no body and no cookies
  before the parsers run): the request logger, the body parser, the cookie parser, the
  routers, and at the end the 404 handler or the error handler.
\<close>

definition serve :: "env \<Rightarrow> store \<Rightarrow> request \<Rightarrow> endpoint \<Rightarrow> store \<times> reply" where
  "serve e st req ep =
     (let arrived = req\<lparr>body := None, cookies := None, validation_errors := []\<rparr>;
          st1 = request_logger st arrived
      in case express_json e arrived of
           Inl err \<Rightarrow> error_handler st1 arrived err
         | Inr parsed \<Rightarrow>
             (case route e ep (st1, \<lparr>req_user = None, res_locals_user = None\<rparr>,
                               cookieParser parsed) of
                ((st2, s2, req2), Json code answer) \<Rightarrow> (st2, Json code answer)
              | ((st2, s2, req2), Next) \<Rightarrow> (st2, Json 404 (RouteNotFound ''Route not found''))
              | ((st2, s2, req2), NextErr err) \<Rightarrow> error_handler st2 req2 err
              | ((st2, s2, req2), Throws err) \<Rightarrow> error_handler st2 req2 err))"

section \<open>Sample data\<close>

definition alice :: user where
  "alice = \<lparr>user_id = ''u1'', firstName = ''Alice'', lastName = ''Doe'',
     email = ''alice@x.com'', password = Some ''hash:Abc12345!'', role = ''user'',
     isActive = True, lastLogin = None, passwordChangedAt = Some 1500,
     passwordResetToken = Null, passwordResetExpires = Null, deletedAt = None\<rparr>"

text \<open>
  An environment whose mail transport rejects every message and whose express-validator
  finds nothing, and one whose express-validator finds a password of fewer than eight
  characters.
\<close>

definition env0 :: env where
  "env0 = \<lparr>now = 2000,
     JWT_sign = (\<lambda>i. ''jwt:'' @ i),
     JWT_verify = (\<lambda>t. if t = ''jwt:u1'' then Some (''u1'', 1) else None),
     bcrypt_hash = (\<lambda>p. ''hash:'' @ p),
     bcrypt_compare = (\<lambda>p h. h = ''hash:'' @ p),
     sha256_hex = (\<lambda>t. ''sha:'' @ t),
     randomBytes_hex = ''c0ffee'',
     uuidv4 = ''u9'',
     sendMail = (\<lambda>m. Some (Error ''connect ECONNREFUSED 127.0.0.1:587'')),
     isEmail = (\<lambda>a. CHR ''@'' \<in> set a),
     normalizeEmail = toLowerCase,
     express_validator = (\<lambda>rules b ps q. []),
     JSON_parse_message = (\<lambda>t. ''Unexpected end of JSON input''),
     boolean_input = (\<lambda>t. None),
     node_has_global_crypto = False\<rparr>"


text \<open>A request on which both parsers have run, with nothing in it.\<close>

definition blank :: request where
  "blank = \<lparr>req_method = ''GET'', originalUrl = ''/'', protocol = ''http'', query = [],
     ip = ''::1'', headers_host = Some ''localhost:3000'', headers_authorization = None,
     headers_cookie = [], payload = Document [], body = Some [], cookies = Some [],
     params = [], validation_errors = []\<rparr>"

definition bob :: user where
  "bob = alice\<lparr>passwordChangedAt := Some 5000\<rparr>"

definition with_bearer :: request where
  "with_bearer = blank\<lparr>headers_authorization := Some ''Bearer jwt:u1''\<rparr>"

definition with_cookie :: request where
  "with_cookie = blank\<lparr>cookies := Some [(''jwt'', ''jwt:u1'')]\<rparr>"

definition both_ways :: request where
  "both_ways = blank\<lparr>headers_authorization := Some ''Bearer nonsense'',
                     cookies := Some [(''jwt'', ''jwt:u1'')]\<rparr>"

definition guest :: session where
  "guest = \<lparr>req_user = None, res_locals_user = None\<rparr>"

definition shop :: store where
  "shop = \<lparr>users = [alice], logs = []\<rparr>"

definition login_unknown :: request where
  "login_unknown =
     blank\<lparr>body := Some [(''email'', JString ''Nobody@x.com''),
                         (''password'', JString ''Abc12345!'')]\<rparr>"

definition login_wrong :: request where
  "login_wrong =
     blank\<lparr>body := Some [(''email'', JString ''Alice@x.com''),
                         (''password'', JString ''guess'')]\<rparr>"

definition login_right :: request where
  "login_right =
     blank\<lparr>body := Some [(''email'', JString ''Alice@x.com''),
                         (''password'', JString ''Abc12345!'')]\<rparr>"

text \<open>Two login requests whose password is the JSON number 12345678.\<close>

definition login_unknown_number :: request where
  "login_unknown_number =
     blank\<lparr>req_method := ''POST'', originalUrl := ''/api/auth/login'',
           body := Some [(''email'', JString ''nobody@x.com''),
                         (''password'', JNumber 12345678)]\<rparr>"

definition login_known_number :: request where
  "login_known_number =
     blank\<lparr>req_method := ''POST'', originalUrl := ''/api/auth/login'',
           body := Some [(''email'', JString ''alice@x.com''),
                         (''password'', JNumber 12345678)]\<rparr>"

definition dormant :: store where
  "dormant = \<lparr>users = [alice\<lparr>isActive := False\<rparr>], logs = []\<rparr>"

definition forgot_alice :: request where
  "forgot_alice = blank\<lparr>req_method := ''POST'', originalUrl := ''/api/auth/forgot-password'',
     body := Some [(''email'', JString ''alice@x.com'')]\<rparr>"

definition carol :: user where
  "carol = alice\<lparr>passwordResetToken := Value ''sha:c0ffee'',
                  passwordResetExpires := Value 602000\<rparr>"

definition reset_carol :: request where
  "reset_carol = blank\<lparr>req_method := ''PATCH'',
     originalUrl := ''/api/auth/reset-password/c0ffee'',
     params := [(''token'', ''c0ffee'')],
     body := Some [(''password'', JString ''Xyz98765!''),
                   (''passwordConfirm'', JString ''Xyz98765!'')]\<rparr>"

definition outstanding :: store where
  "outstanding = \<lparr>users = [carol], logs = []\<rparr>"








section \<open>The stale-session check\<close>

text \<open>
  C10. The staleness check compares the token's issued-at second with
  \<open>passwordChangedAt\<close> cut to whole seconds, which for an instant at or after the epoch
  is the floor of milliseconds / 1000. For every account, a token whose issued-at second
  equals that second is not stale; so a token issued at an instant before the change,
  within the same clock second, passes the check.
\<close>

theorem changedPasswordAfter_same_second:
  assumes "passwordChangedAt u = Some changed"
  shows "\<not> changedPasswordAfter u (parseInt_div_1000 changed)
    \<and> (0 \<le> changed \<longrightarrow> parseInt_div_1000 changed = changed div 1000)
    \<and> (\<forall>issued. 0 \<le> issued \<and> issued \<le> changed \<and> issued div 1000 = changed div 1000
          \<longrightarrow> \<not> changedPasswordAfter u (issued div 1000))"
  using assms by (auto simp add: changedPasswordAfter_def parseInt_div_1000_def)

theorem changedPasswordAfter_same_second_witness:
  "passwordChangedAt alice = Some 1500 \<and> parseInt_div_1000 1500 = 1
    \<and> (1200::int) \<le> 1500 \<and> (1200::int) div 1000 = 1
    \<and> \<not> changedPasswordAfter alice 1"
proof -
  have a: "passwordChangedAt alice = Some 1500" by (simp add: alice_def)
  from changedPasswordAfter_same_second [OF a]
  have "\<not> changedPasswordAfter alice ((1200::int) div 1000)"
    and "parseInt_div_1000 1500 = 1500 div 1000" by auto
  with a show ?thesis by simp
qed

text \<open>
  C4, as the gate has it. For a request whose token verifies and whose account is found,
  the gate honours the token exactly when the token's issued-at second is not below
  \<open>passwordChangedAt\<close> cut to whole seconds (an account that never changed its
  password passes); then it attaches the account to the request and to the response
  context. Otherwise the token's second lies before the second of the change, and the
  gate rejects with the stale-session error, status 401, attaching nothing.
\<close>

theorem protect_stale_session:
  assumes "extract_token req = Inr (Some token)" and "token \<noteq> []"
    and "JWT_verify e token = Some (decoded_id, iat)"
    and "findByPk db decoded_id = Some account"
  shows "(snd (protect e db req s) = Next
            \<longleftrightarrow> (\<forall>changed. passwordChangedAt account = Some changed
                    \<longrightarrow> parseInt_div_1000 changed \<le> iat))
    \<and> (snd (protect e db req s) = Next
          \<longrightarrow> fst (protect e db req s)
              = s\<lparr>req_user := Some account, res_locals_user := Some account\<rparr>)
    \<and> (snd (protect e db req s) \<noteq> Next
          \<longrightarrow> protect e db req s
              = (s, NextErr (AppError
                   ''User recently changed password! Please log in again.'' 401)))"
  using assms
  by (auto simp add: protect_def changedPasswordAfter_def split: option.splits)

theorem protect_stale_session_witness:
  "extract_token with_bearer = Inr (Some ''jwt:u1'')
    \<and> JWT_verify env0 ''jwt:u1'' = Some (''u1'', 1)
    \<and> findByPk [bob] ''u1'' = Some (defaultScope bob)
    \<and> passwordChangedAt (defaultScope bob) = Some 5000
    \<and> protect env0 [bob] with_bearer guest
        = (guest, NextErr (AppError
             ''User recently changed password! Please log in again.'' 401))"
proof -
  have a: "extract_token with_bearer = Inr (Some ''jwt:u1'')"
    by (simp add: extract_token_def with_bearer_def blank_def startsWith_def at_index_def)
  have b: "JWT_verify env0 ''jwt:u1'' = Some (''u1'', 1)"
    by (simp add: env0_def)
  have c: "findByPk [bob] ''u1'' = Some (defaultScope bob)"
    by (simp add: findByPk_def findOne_def bob_def alice_def)
  have d: "passwordChangedAt (defaultScope bob) = Some 5000"
    by (simp add: defaultScope_def bob_def)
  have n: "''jwt:u1'' \<noteq> []" by simp
  from protect_stale_session [OF a n b c, of guest] d
  show ?thesis using a b c by (simp add: parseInt_div_1000_def)
qed

text \<open>
  C4, as the claim words it, fails: the account's password changed at 1500 ms, the token
  carries \<open>iat = 1\<close> (issued in the second from 1000 ms, before the change), and the gate
  honours it.
\<close>

theorem protect_stale_session_counterexample:
  "passwordChangedAt alice = Some 1500
    \<and> JWT_verify env0 ''jwt:u1'' = Some (''u1'', 1)
    \<and> (1::int) * 1000 < 1500
    \<and> snd (protect env0 [alice] with_bearer guest) = Next"
  by (simp add: protect_def extract_token_def startsWith_def at_index_def env0_def alice_def
      with_bearer_def blank_def guest_def findByPk_def findOne_def defaultScope_def
      changedPasswordAfter_def parseInt_div_1000_def)

section \<open>The role restriction\<close>

text \<open>
  C8. With an identity attached whose role is not among the allowed ones, the check
  rejects with the error of status 403. With no identity attached it does not grant: it
  ends in an exception (reading \<open>role\<close> of \<open>undefined\<close>). It grants only an attached
  identity whose role is allowed. Behind the Auth Gate, as the user router mounts it, a
  request gets through only when the gate let it through and attached an administrator.
\<close>

theorem restrictTo_fails_closed:
  "(\<forall>u. req_user s = Some u \<and> role u \<notin> set roles
      \<longrightarrow> restrictTo roles s
          = NextErr (AppError ''You do not have permission to perform this action'' 403))
    \<and> (req_user s = None \<longrightarrow> (\<exists>err. restrictTo roles s = Throws err))
    \<and> (restrictTo roles s = Next \<longleftrightarrow> (\<exists>u. req_user s = Some u \<and> role u \<in> set roles))
    \<and> (snd (admin_gate e db req s) = Next
          \<longrightarrow> snd (protect e db req s) = Next
            \<and> (\<exists>u. req_user (fst (admin_gate e db req s)) = Some u \<and> role u = ''admin''))"
proof -
  have local: "(\<forall>u. req_user s = Some u \<and> role u \<notin> set roles
      \<longrightarrow> restrictTo roles s
          = NextErr (AppError ''You do not have permission to perform this action'' 403))
    \<and> (req_user s = None \<longrightarrow> (\<exists>err. restrictTo roles s = Throws err))
    \<and> (restrictTo roles s = Next \<longleftrightarrow> (\<exists>u. req_user s = Some u \<and> role u \<in> set roles))"
    by (auto simp add: restrictTo_def split: option.splits)
  obtain s' r where p: "protect e db req s = (s', r)" by (cases "protect e db req s")
  have gate: "snd (admin_gate e db req s) = Next
          \<longrightarrow> snd (protect e db req s) = Next
            \<and> (\<exists>u. req_user (fst (admin_gate e db req s)) = Some u \<and> role u = ''admin'')"
  proof (cases "r = Next")
    case True
    with p have "admin_gate e db req s = (s', restrictTo [''admin''] s')"
      by (simp add: admin_gate_def)
    with p True show ?thesis
      by (auto simp add: restrictTo_def split: option.splits if_splits)
  next
    case False
    with p have "admin_gate e db req s = (s', r)"
      by (cases r) (simp_all add: admin_gate_def)
    with False show ?thesis by simp
  qed
  from local gate show ?thesis by blast
qed

theorem restrictTo_fails_closed_witness:
  "restrictTo [''admin''] (guest\<lparr>req_user := Some alice\<rparr>)
      = NextErr (AppError ''You do not have permission to perform this action'' 403)
    \<and> restrictTo [''admin''] guest \<noteq> Next
    \<and> snd (protect env0 [alice] with_bearer guest) = Next
    \<and> snd (admin_gate env0 [alice] with_bearer guest) \<noteq> Next"
proof -
  have r: "req_user (guest\<lparr>req_user := Some alice\<rparr>) = Some alice
           \<and> role alice \<notin> set [''admin'']"
    by (simp add: alice_def)
  have g: "req_user guest = None" by (simp add: guest_def)
  from restrictTo_fails_closed [of "guest\<lparr>req_user := Some alice\<rparr>" "[''admin'']"] r
  have one: "restrictTo [''admin''] (guest\<lparr>req_user := Some alice\<rparr>)
      = NextErr (AppError ''You do not have permission to perform this action'' 403)"
    by blast
  from restrictTo_fails_closed [of guest "[''admin'']"] g
  have two: "restrictTo [''admin''] guest \<noteq> Next" by auto
  have three: "snd (protect env0 [alice] with_bearer guest) = Next"
    and four: "snd (admin_gate env0 [alice] with_bearer guest) \<noteq> Next"
    by (simp_all add: admin_gate_def restrictTo_def protect_def extract_token_def
        startsWith_def at_index_def env0_def alice_def with_bearer_def blank_def guest_def
        findByPk_def findOne_def defaultScope_def changedPasswordAfter_def
        parseInt_div_1000_def)
  from one two three four show ?thesis by simp
qed

section \<open>The lenient gate\<close>

lemma extract_token_cookie:
  assumes "\<not> (\<exists>a. headers_authorization req = Some a \<and> a \<noteq> [] \<and> startsWith a ''Bearer'')"
  shows "extract_token req = cookie_token req"
  using assms by (cases "headers_authorization req") (auto simp add: extract_token_def)

lemma isLoggedIn_header:
  "isLoggedIn e db (req\<lparr>headers_authorization := h\<rparr>) s = isLoggedIn e db req s"
  by (simp add: isLoggedIn_def)

lemma isLoggedIn_identity:
  "req_user (fst (isLoggedIn e db req s)) = req_user s \<and> snd (isLoggedIn e db req s) = Next"
  by (simp add: isLoggedIn_def split: option.split prod.split)

lemma isLoggedIn_cookie_steps:
  assumes "\<not> (\<exists>a. headers_authorization req = Some a \<and> a \<noteq> [] \<and> startsWith a ''Bearer'')"
  shows "(snd (protect e db req s) = Next
          \<longrightarrow> isLoggedIn e db req s
              = (s\<lparr>res_locals_user := res_locals_user (fst (protect e db req s))\<rparr>, Next)
            \<and> res_locals_user (fst (protect e db req s)) \<noteq> None)
    \<and> (snd (protect e db req s) \<noteq> Next \<longrightarrow> isLoggedIn e db req s = (s, Next))"
proof -
  note tok = extract_token_cookie [OF assms]
  show ?thesis
  proof (cases "cookies req")
    case None
    then show ?thesis
      by (simp add: protect_def isLoggedIn_def tok cookie_token_def)
  next
    case jar: (Some c)
    show ?thesis
    proof (cases "js_get c ''jwt''")
      case None
      with jar show ?thesis
        by (simp add: protect_def isLoggedIn_def tok cookie_token_def truthy_def)
    next
      case jwt: (Some token)
      show ?thesis
      proof (cases "token = []")
        case True
        with jar jwt show ?thesis
          by (simp add: protect_def isLoggedIn_def tok cookie_token_def truthy_def)
      next
        case filled: False
        show ?thesis
        proof (cases "JWT_verify e token")
          case None
          with jar jwt filled show ?thesis
            by (simp add: protect_def isLoggedIn_def tok cookie_token_def truthy_def)
        next
          case (Some decoded)
          obtain decoded_id decoded_iat where dec: "decoded = (decoded_id, decoded_iat)"
            by (cases decoded)
          note ver = Some [unfolded dec]
          show ?thesis
          proof (cases "findByPk db decoded_id")
            case None
            with jar jwt filled ver show ?thesis
              by (simp add: protect_def isLoggedIn_def tok cookie_token_def truthy_def)
          next
            case (Some currentUser)
            with jar jwt filled ver show ?thesis
              by (cases "changedPasswordAfter currentUser decoded_iat")
                 (simp_all add: protect_def isLoggedIn_def tok cookie_token_def truthy_def)
          qed
        qed
      qed
    qed
  qed
qed

text \<open>
  C9, as the code has it. \<open>isLoggedIn\<close> always ends in \<open>next()\<close> and never sets
  \<open>req.user\<close>. It does not look at the Authorization header: it reads the token from
  the cookie only. On that token it goes through the steps of the strict gate, which are
  those \<open>protect\<close> takes on the same request without its Authorization header:
  where they all succeed, \<open>isLoggedIn\<close> attaches the same account to the response
  context; where one of them rejects, \<open>isLoggedIn\<close> continues with nothing attached.
\<close>

theorem isLoggedIn_lenient:
  "snd (isLoggedIn e db req s) = Next
    \<and> req_user (fst (isLoggedIn e db req s)) = req_user s
    \<and> isLoggedIn e db (req\<lparr>headers_authorization := h\<rparr>) s = isLoggedIn e db req s
    \<and> (snd (protect e db (req\<lparr>headers_authorization := None\<rparr>) s) = Next
          \<longrightarrow> isLoggedIn e db req s
              = (s\<lparr>res_locals_user :=
                     res_locals_user (fst (protect e db (req\<lparr>headers_authorization := None\<rparr>) s))\<rparr>,
                 Next)
            \<and> res_locals_user (fst (protect e db (req\<lparr>headers_authorization := None\<rparr>) s))
                \<noteq> None)
    \<and> (snd (protect e db (req\<lparr>headers_authorization := None\<rparr>) s) \<noteq> Next
          \<longrightarrow> isLoggedIn e db req s = (s, Next))"
proof -
  have bare: "\<not> (\<exists>a. headers_authorization (req\<lparr>headers_authorization := None\<rparr>) = Some a
                    \<and> a \<noteq> [] \<and> startsWith a ''Bearer'')"
    by simp
  from isLoggedIn_cookie_steps [OF bare, of e db s]
  have steps: "(snd (protect e db (req\<lparr>headers_authorization := None\<rparr>) s) = Next
          \<longrightarrow> isLoggedIn e db req s
              = (s\<lparr>res_locals_user :=
                     res_locals_user (fst (protect e db (req\<lparr>headers_authorization := None\<rparr>) s))\<rparr>,
                 Next)
            \<and> res_locals_user (fst (protect e db (req\<lparr>headers_authorization := None\<rparr>) s))
                \<noteq> None)
    \<and> (snd (protect e db (req\<lparr>headers_authorization := None\<rparr>) s) \<noteq> Next
          \<longrightarrow> isLoggedIn e db req s = (s, Next))"
    by (simp only: isLoggedIn_header)
  with isLoggedIn_identity [of e db req s] isLoggedIn_header [of e db h req s]
  show ?thesis by blast
qed

theorem isLoggedIn_lenient_witness:
  "snd (protect env0 [alice] (both_ways\<lparr>headers_authorization := None\<rparr>) guest) = Next
    \<and> snd (protect env0 [alice] both_ways guest) \<noteq> Next
    \<and> isLoggedIn env0 [alice] both_ways guest
        = (guest\<lparr>res_locals_user := Some (defaultScope alice)\<rparr>, Next)
    \<and> snd (protect env0 [alice] (with_bearer\<lparr>headers_authorization := None\<rparr>) guest) \<noteq> Next
    \<and> isLoggedIn env0 [alice] with_bearer guest = (guest, Next)"
proof -
  have p: "protect env0 [alice] (both_ways\<lparr>headers_authorization := None\<rparr>) guest
      = (guest\<lparr>req_user := Some (defaultScope alice),
                res_locals_user := Some (defaultScope alice)\<rparr>, Next)"
    by (simp add: protect_def extract_token_def cookie_token_def truthy_def js_get_def
        env0_def alice_def both_ways_def blank_def guest_def findByPk_def findOne_def
        defaultScope_def changedPasswordAfter_def parseInt_div_1000_def)
  have q: "snd (protect env0 [alice] both_ways guest) \<noteq> Next"
    by (simp add: protect_def extract_token_def startsWith_def at_index_def env0_def
        both_ways_def blank_def)
  have r: "snd (protect env0 [alice] (with_bearer\<lparr>headers_authorization := None\<rparr>) guest) \<noteq> Next"
    by (simp add: protect_def extract_token_def cookie_token_def truthy_def js_get_def
        with_bearer_def blank_def)
  from isLoggedIn_lenient [of env0 "[alice]" both_ways guest] p
  have one: "isLoggedIn env0 [alice] both_ways guest
        = (guest\<lparr>res_locals_user := Some (defaultScope alice)\<rparr>, Next)"
    by simp
  from isLoggedIn_lenient [of env0 "[alice]" with_bearer guest] r
  have two: "isLoggedIn env0 [alice] with_bearer guest = (guest, Next)"
    by blast
  from p q r one two show ?thesis by simp
qed

text \<open>
  C9, as the claim words it, fails: a request that carries its token in the Authorization
  header and has no cookie passes every step of the strict gate, which attaches the
  account, while the lenient gate attaches nothing.
\<close>

theorem isLoggedIn_lenient_counterexample:
  "protect env0 [alice] with_bearer guest
      = (guest\<lparr>req_user := Some (defaultScope alice),
                res_locals_user := Some (defaultScope alice)\<rparr>, Next)
    \<and> isLoggedIn env0 [alice] with_bearer guest = (guest, Next)
    \<and> res_locals_user guest = None"
  by (simp add: protect_def isLoggedIn_def extract_token_def startsWith_def at_index_def
      env0_def alice_def with_bearer_def blank_def guest_def findByPk_def findOne_def
      defaultScope_def changedPasswordAfter_def parseInt_div_1000_def js_get_def)

section \<open>Login\<close>

lemma toLowerCase_samples:
  "toLowerCase ''Alice@x.com'' = ''alice@x.com''"
  "toLowerCase ''Nobody@x.com'' = ''nobody@x.com''"
  "toLowerCase ''alice@x.com'' = ''alice@x.com''"
  "toLowerCase ''nobody@x.com'' = ''nobody@x.com''"
  by code_simp+

text \<open>
  C5 on the code. Two login requests give the same password, one with an email no account
  has, the other with the email of an account. The first ends in the error ``Incorrect
  email or password'' with the status 401. When the password is a string that does not
  match the account's hash, the second ends the same way. When the password is truthy and
  not a string (a JSON number, or \<open>true\<close>; the route's rule for it is \<open>notEmpty()\<close>
  alone), the second ends in the exception \<open>bcrypt.compare\<close> throws, which the error
  handler answers with the status 500, while the first is answered with 401: the caller
  can tell the two cases apart.
\<close>

theorem login_rejections_differ:
  assumes "body r1 = Some b1" and "js_get b1 ''email'' = Some (JString em1)" and "em1 \<noteq> []"
    and "body r2 = Some b2" and "js_get b2 ''email'' = Some (JString em2)" and "em2 \<noteq> []"
    and "js_get b1 ''password'' = Some pw" and "js_get b2 ''password'' = Some pw"
    and "js_truthy (Some pw)"
    and "findOne (\<lambda>u. email u = toLowerCase em1) (users st) = None"
    and "findOne (\<lambda>u. email u = toLowerCase em2) (users st) = Some account"
    and "password account = Some h"
  shows "login e st r1 = (st, NextErr (AppError ''Incorrect email or password'' 401))
    \<and> snd (error_handler st r1 (AppError ''Incorrect email or password'' 401))
        = Json 401 (Failure ''Incorrect email or password'' 401)
    \<and> (\<forall>p. pw = JString p \<and> \<not> bcrypt_compare e p h
          \<longrightarrow> login e st r2 = (st, NextErr (AppError ''Incorrect email or password'' 401)))
    \<and> ((\<forall>p. pw \<noteq> JString p)
          \<longrightarrow> login e st r2
                = (st, NextErr (Error (''Illegal arguments: '' @ js_typeof (Some pw)
                                       @ '', string'')))
            \<and> snd (error_handler st r2
                      (Error (''Illegal arguments: '' @ js_typeof (Some pw) @ '', string'')))
                = Json 500 (Failure (''Illegal arguments: '' @ js_typeof (Some pw)
                                     @ '', string'') 500))"
proof -
  have one: "login e st r1 = (st, NextErr (AppError ''Incorrect email or password'' 401))"
    using assms by (simp add: login_def email_toLowerCase_def js_truthy_def)
  have answer: "snd (error_handler st r1 (AppError ''Incorrect email or password'' 401))
        = Json 401 (Failure ''Incorrect email or password'' 401)"
    by (simp add: error_handler_def err_status_def err_message_def or_else_def)
  have wrong: "login e st r2 = (st, NextErr (AppError ''Incorrect email or password'' 401))"
    if "pw = JString p" and "\<not> bcrypt_compare e p h" for p
    using assms that
    by (simp add: login_def email_toLowerCase_def js_truthy_def correctPassword_def)
  have thrown: "login e st r2
                = (st, NextErr (Error (''Illegal arguments: '' @ js_typeof (Some pw)
                                       @ '', string'')))"
    if "\<forall>p. pw \<noteq> JString p"
    using assms that
    by (cases pw)
       (simp_all add: login_def email_toLowerCase_def js_truthy_def correctPassword_def)
  have crash: "snd (error_handler st r2
                      (Error (''Illegal arguments: '' @ js_typeof (Some pw) @ '', string'')))
                = Json 500 (Failure (''Illegal arguments: '' @ js_typeof (Some pw)
                                     @ '', string'') 500)"
    by (simp add: error_handler_def err_status_def err_message_def or_else_def)
  from one answer wrong thrown crash show ?thesis by blast
qed

theorem login_rejections_differ_witness:
  "login env0 shop login_unknown_number
      = (shop, NextErr (AppError ''Incorrect email or password'' 401))
    \<and> login env0 shop login_known_number
      = (shop, NextErr (Error ''Illegal arguments: number, string''))
    \<and> snd (error_handler shop login_known_number (Error ''Illegal arguments: number, string''))
      = Json 500 (Failure ''Illegal arguments: number, string'' 500)
    \<and> login env0 shop login_wrong = login env0 shop login_unknown"
proof -
  have u: "findOne (\<lambda>u. email u = toLowerCase ''nobody@x.com'') (users shop) = None"
    by (simp add: toLowerCase_samples findOne_def shop_def alice_def)
  have k: "findOne (\<lambda>u. email u = toLowerCase ''alice@x.com'') (users shop) = Some alice"
    by (simp add: toLowerCase_samples findOne_def shop_def alice_def)
  have p: "password alice = Some ''hash:Abc12345!''" by (simp add: alice_def)
  have t: "js_truthy (Some (JNumber 12345678))" by (simp add: js_truthy_def)
  have n: "\<forall>p. JNumber 12345678 \<noteq> JString p" by simp
  from login_rejections_differ [of login_unknown_number _ "''nobody@x.com''"
      login_known_number _ "''alice@x.com''" "JNumber 12345678" shop alice
      "''hash:Abc12345!''" env0, OF _ _ _ _ _ _ _ _ t u k p] n
  have number: "login env0 shop login_unknown_number
      = (shop, NextErr (AppError ''Incorrect email or password'' 401))
    \<and> login env0 shop login_known_number
      = (shop, NextErr (Error ''Illegal arguments: number, string''))
    \<and> snd (error_handler shop login_known_number (Error ''Illegal arguments: number, string''))
      = Json 500 (Failure ''Illegal arguments: number, string'' 500)"
    by (simp add: login_unknown_number_def login_known_number_def blank_def js_get_def
        js_typeof_def)
  have u2: "findOne (\<lambda>u. email u = toLowerCase ''Nobody@x.com'') (users shop) = None"
    by (simp add: toLowerCase_samples findOne_def shop_def alice_def)
  have k2: "findOne (\<lambda>u. email u = toLowerCase ''Alice@x.com'') (users shop) = Some alice"
    by (simp add: toLowerCase_samples findOne_def shop_def alice_def)
  have w: "\<not> bcrypt_compare env0 ''guess'' ''hash:Abc12345!''" by (simp add: env0_def)
  have t2: "js_truthy (Some (JString ''guess''))" by (simp add: js_truthy_def)
  from login_rejections_differ [of "login_unknown\<lparr>body := Some [(''email'', JString ''Nobody@x.com''),
        (''password'', JString ''guess'')]\<rparr>" _ "''Nobody@x.com''"
      login_wrong _ "''Alice@x.com''" "JString ''guess''" shop alice
      "''hash:Abc12345!''" env0, OF _ _ _ _ _ _ _ _ t2 u2 k2 p] w
  have wrong: "login env0 shop login_wrong
      = (shop, NextErr (AppError ''Incorrect email or password'' 401))"
    by (simp add: login_unknown_def login_wrong_def blank_def js_get_def)
  have unknown: "login env0 shop login_unknown
      = (shop, NextErr (AppError ''Incorrect email or password'' 401))"
    using u2
    by (simp add: login_def login_unknown_def blank_def js_get_def js_truthy_def
        email_toLowerCase_def)
  from number wrong unknown show ?thesis by simp
qed

text \<open>
  C6, as the code has it. A login with the right password for a deactivated account
  (\<open>isActive\<close> false) ends in the error ``Your account has been deactivated'' with the
  status 403 (Forbidden), which the error handler answers with; the store is untouched
  and no token is issued.
\<close>

theorem login_deactivated:
  assumes "body req = Some b" and "js_get b ''email'' = Some (JString em)"
    and "js_get b ''password'' = Some (JString pw)" and "em \<noteq> []" and "pw \<noteq> []"
    and "findOne (\<lambda>u. email u = toLowerCase em) (users st) = Some account"
    and "password account = Some h" and "bcrypt_compare e pw h"
    and "\<not> isActive account"
  shows "login e st req = (st, NextErr (AppError ''Your account has been deactivated'' 403))
    \<and> snd (error_handler st req (AppError ''Your account has been deactivated'' 403))
        = Json 403 (Failure ''Your account has been deactivated'' 403)"
  using assms
  by (simp add: login_def email_toLowerCase_def js_truthy_def correctPassword_def
      error_handler_def err_status_def err_message_def or_else_def)

theorem login_deactivated_witness:
  "login env0 dormant login_right
      = (dormant, NextErr (AppError ''Your account has been deactivated'' 403))"
proof -
  have k: "findOne (\<lambda>u. email u = toLowerCase ''Alice@x.com'') (users dormant)
           = Some (alice\<lparr>isActive := False\<rparr>)"
    by (simp add: toLowerCase_samples findOne_def dormant_def alice_def)
  have p: "password (alice\<lparr>isActive := False\<rparr>) = Some ''hash:Abc12345!''"
    by (simp add: alice_def)
  have c: "bcrypt_compare env0 ''Abc12345!'' ''hash:Abc12345!''" by (simp add: env0_def)
  have i: "\<not> isActive (alice\<lparr>isActive := False\<rparr>)" by simp
  from login_deactivated [of login_right _ "''Alice@x.com''" "''Abc12345!''" dormant
      "alice\<lparr>isActive := False\<rparr>" "''hash:Abc12345!''" env0, OF _ _ _ _ _ k p c i]
  show ?thesis
    by (simp add: login_right_def blank_def js_get_def)
qed

text \<open>
  C6, as the claim words it, fails: the status of that answer is 403, not 401.
\<close>

theorem login_deactivated_counterexample:
  "isActive (alice\<lparr>isActive := False\<rparr>) = False
    \<and> bcrypt_compare env0 ''Abc12345!'' ''hash:Abc12345!''
    \<and> login env0 dormant login_right
        = (dormant, NextErr (AppError ''Your account has been deactivated'' 403))
    \<and> snd (error_handler dormant login_right
             (AppError ''Your account has been deactivated'' 403))
        = Json 403 (Failure ''Your account has been deactivated'' 403)
    \<and> (403::nat) \<noteq> 401"
  by (simp add: login_def email_toLowerCase_def js_truthy_def correctPassword_def
      error_handler_def err_status_def err_message_def or_else_def login_right_def blank_def
      js_get_def dormant_def toLowerCase_samples findOne_def alice_def env0_def)

section \<open>Forgot password\<close>

lemma find_map_same:
  assumes "\<And>x. P (f x) = P x"
  shows "find P (map f xs) = map_option f (find P xs)"
  by (induction xs) (simp_all add: assms)

lemma User_save_reset_fields:
  "User_save e db [] [''passwordResetToken'', ''passwordResetExpires''] u
     = Inr (map (\<lambda>row. if user_id row = user_id u
                        then row\<lparr>passwordResetToken :=
                                   (if passwordResetToken u \<noteq> Undefined
                                    then passwordResetToken u else passwordResetToken row),
                                 passwordResetExpires :=
                                   (if passwordResetExpires u \<noteq> Undefined
                                    then passwordResetExpires u else passwordResetExpires row)\<rparr>
                        else row) db, u)"
  by (simp add: User_save_def validate_assigned_def beforeUpdate_def write_changed_def
      write_assigned_def)

text \<open>
  C3 on the code. When the account exists and the transport rejects the message,
  \<open>forgotPassword\<close> ends in the error of status 500, which the error handler answers
  with, as the claim says. But the reset state is not rolled back: the handler assigns
  \<open>undefined\<close> to both fields and saves, the UPDATE leaves them out, and the table is
  the one before the request with the new digest and the expiry ten minutes ahead stored
  on that account; the account read back by its email holds both. The log has the line
  \<open>sendEmail\<close> wrote, with the transport's error.
\<close>

theorem forgotPassword_keeps_reset_token:
  assumes "body req = Some b" and "js_get b ''email'' = Some (JString em)"
    and "findOne (\<lambda>u. email u = em) (users st) = Some account"
    and "sendMail e (reset_mail req em (randomBytes_hex e)) = Some failure"
  shows "snd (forgotPassword e st req)
      = NextErr (AppError ''There was an error sending the email. Try again later!'' 500)
    \<and> snd (error_handler (fst (forgotPassword e st req)) req
             (AppError ''There was an error sending the email. Try again later!'' 500))
      = Json 500 (Failure ''There was an error sending the email. Try again later!'' 500)
    \<and> users (fst (forgotPassword e st req))
      = map (\<lambda>row. if user_id row = user_id account
                    then row\<lparr>passwordResetToken := Value (sha256_hex e (randomBytes_hex e)),
                             passwordResetExpires := Value (now e + 10 * 60 * 1000)\<rparr>
                    else row) (users st)
    \<and> findOne (\<lambda>u. email u = em) (users (fst (forgotPassword e st req)))
      = Some (account\<lparr>passwordResetToken := Value (sha256_hex e (randomBytes_hex e)),
                      passwordResetExpires := Value (now e + 10 * 60 * 1000)\<rparr>)
    \<and> logs (fst (forgotPassword e st req))
      = logs st @ [ErrorWith ''Error sending email:'' failure]"
proof -
  let ?set = "\<lambda>row. if user_id row = user_id account
                    then row\<lparr>passwordResetToken := Value (sha256_hex e (randomBytes_hex e)),
                             passwordResetExpires := Value (now e + 10 * 60 * 1000)\<rparr>
                    else row"
  from assms(3) have mine: "email account = em"
    by (auto simp add: findOne_def dest: find_Some_iff [THEN iffD1])
  have run: "forgotPassword e st req
      = (st\<lparr>users := map ?set (users st),
             logs := logs st @ [ErrorWith ''Error sending email:'' failure]\<rparr>,
         NextErr (AppError ''There was an error sending the email. Try again later!'' 500))"
    using assms mine
    by (auto simp add: forgotPassword_def where_equals_def createPasswordResetToken_def
        User_save_reset_fields sendEmail_def defaultScope_def Let_def o_def)
  have keep: "\<And>x. (deletedAt (?set x) = None \<and> email (?set x) = em)
                = (deletedAt x = None \<and> email x = em)"
    by simp
  have "findOne (\<lambda>u. email u = em) (map ?set (users st))
      = map_option ?set (findOne (\<lambda>u. email u = em) (users st))"
    unfolding findOne_def by (rule find_map_same) (rule keep)
  with assms(3) run show ?thesis
    by (simp add: error_handler_def err_status_def err_message_def or_else_def)
qed

theorem forgotPassword_keeps_reset_token_witness:
  "findOne (\<lambda>u. email u = ''alice@x.com'') (users shop) = Some alice
    \<and> passwordResetToken alice = Null
    \<and> snd (forgotPassword env0 shop forgot_alice)
        = NextErr (AppError ''There was an error sending the email. Try again later!'' 500)
    \<and> users (fst (forgotPassword env0 shop forgot_alice))
        = [alice\<lparr>passwordResetToken := Value ''sha:c0ffee'',
                  passwordResetExpires := Value 602000\<rparr>]
    \<and> now env0 < 602000"
proof -
  have k: "findOne (\<lambda>u. email u = ''alice@x.com'') (users shop) = Some alice"
    by (simp add: findOne_def shop_def alice_def)
  have d: "sendMail env0 (reset_mail forgot_alice ''alice@x.com'' (randomBytes_hex env0))
           = Some (Error ''connect ECONNREFUSED 127.0.0.1:587'')"
    by (simp add: env0_def)
  have b: "body forgot_alice = Some [(''email'', JString ''alice@x.com'')]"
    by (simp add: forgot_alice_def blank_def)
  have g: "js_get [(''email'', JString ''alice@x.com'')] ''email''
           = Some (JString ''alice@x.com'')"
    by (simp add: js_get_def)
  from forgotPassword_keeps_reset_token [OF b g k d] k
  show ?thesis by (simp add: shop_def alice_def env0_def)
qed

section \<open>Reset password\<close>

text \<open>
  Whatever the request and the store, \<open>resetPassword\<close> ends at its first statement:
  the exception of the unbound \<open>crypto\<close> reaches \<open>next(error)\<close>, and the store is
  untouched.
\<close>

lemma resetPassword_throws:
  "resetPassword e st req
     = (st, NextErr (if node_has_global_crypto e
                     then TypeError ''crypto.createHash is not a function''
                     else ReferenceError ''crypto is not defined''))"
  by (simp add: resetPassword_def controller_crypto_sha256_hex_def)

text \<open>
  C1 on the code. An account holds the digest of the secret \<open>c0ffee\<close> and an expiry in
  the future; the request carries that secret and a new password. The handler ends in
  \<open>next(ReferenceError)\<close> (a \<open>TypeError\<close> on a release with the Web Crypto global), which
  the error handler answers with status 500; the password and the reset fields stay as
  they were.
\<close>

theorem resetPassword_valid_secret_fails:
  "findOne (\<lambda>u. passwordResetToken u = Value (sha256_hex env0 ''c0ffee'')
               \<and> (case passwordResetExpires u of
                     Value expires \<Rightarrow> now env0 < expires
                   | _ \<Rightarrow> False)) (users outstanding) = Some carol
    \<and> js_get (params reset_carol) ''token'' = Some ''c0ffee''
    \<and> resetPassword env0 outstanding reset_carol
        = (outstanding, NextErr (ReferenceError ''crypto is not defined''))
    \<and> snd (error_handler outstanding reset_carol (ReferenceError ''crypto is not defined''))
        = Json 500 (Failure ''crypto is not defined'' 500)
    \<and> resetPassword (env0\<lparr>node_has_global_crypto := True\<rparr>) outstanding reset_carol
        = (outstanding, NextErr (TypeError ''crypto.createHash is not a function''))"
  by (simp add: resetPassword_throws findOne_def outstanding_def carol_def alice_def env0_def
      reset_carol_def blank_def js_get_def error_handler_def err_status_def err_message_def
      or_else_def)

section \<open>Registration\<close>










end
